theory Spec2Isabelle
  imports Main "HOL-Library.Word"
begin

section \<open>The persistence layer of the chat server (src/lib/data.ts)\<close>

text \<open>
  The module keeps two SQL tables, \<open>users\<close> (primary key \<open>username\<close>) and \<open>rooms\<close>
  (primary key \<open>name\<close>), and exports asynchronous functions over them. The embedding is
  sequential: each exported function becomes a function from the database before the call
  to its result and the database after it. What a call cannot decide by itself is an
  argument of the model:
  \<^item> whether a query of the database client rejects (a \<open>bool\<close> per query, \<open>True\<close> for a
    storage fault);
  \<^item> the salt \<open>bcrypt.hash\<close> draws and the key pair \<open>openpgp.generateKey\<close> draws;
  \<^item> the library functions themselves (\<open>bcrypt.hash\<close>, \<open>bcrypt.compare\<close>,
    \<open>openpgp.readKey\<close> followed by \<open>armor\<close>, and the built-in
    \<open>String.prototype.toLowerCase\<close>), which are not part of the repository.
\<close>

subsection \<open>JavaScript values\<close>

type_synonym bytes = "8 word list"

text \<open>
  A JavaScript \<open>Set\<close> of strings is a list without repetitions in insertion order, which is
  also the order \<open>Array.from\<close> and \<open>for ... of\<close> read it in.
\<close>

definition Set_add :: "'a \<Rightarrow> 'a list \<Rightarrow> 'a list" where
  "Set_add x s = (if x \<in> set s then s else s @ [x])"

definition Set_delete :: "'a \<Rightarrow> 'a list \<Rightarrow> 'a list" where
  "Set_delete x s = filter (\<lambda>y. y \<noteq> x) s"

definition new_Set :: "'a list \<Rightarrow> 'a list" where
  "new_Set xs = fold Set_add xs []"

text \<open>
  \<open>String.prototype.toLowerCase\<close> is the built-in of the runtime, with the case mappings of
  Unicode. It is the argument \<open>toLowerCase\<close> of every function below that calls it, and
  a theorem assumes of it what its statement says, and nothing else.
\<close>

text \<open>The result of an \<open>async\<close> function: a value, or a rejected promise.\<close>

datatype 'a outcome = Returns 'a | Rejects

subsection \<open>The tables\<close>

text \<open>
  A row of \<open>users\<close> without its key column. The \<open>rooms\<close> column holds the JSON text of an
  array of strings (default \<open>"[]"\<close>), written only by \<open>JSON.stringify\<close> and read only by
  \<open>JSON.parse\<close>: it is modelled by the array itself. \<open>online\<close> is a boolean column, which
  SQLite keeps as an integer (default \<open>0\<close>).
\<close>

record user_row =
  u_displayName :: "string option"
  u_password :: string
  u_color :: string
  u_rooms :: "string list"
  u_online :: int
  u_publicKey :: "bytes option"

text \<open>A row of \<open>rooms\<close> without its key column; \<open>members\<close> is JSON text as above.\<close>

record room_row =
  r_description :: "string option"
  r_members :: "string list"
  r_publicKey :: bytes
  r_privateKey :: bytes

record database =
  users_table :: "string \<rightharpoonup> user_row"
  rooms_table :: "string \<rightharpoonup> room_row"

text \<open>The objects handed to the callers (types \<open>UserSession\<close> and \<open>Room\<close>).\<close>

record UserSession =
  username :: string
  displayName :: "string option"
  password :: string
  color :: string
  rooms :: "string list"
  online :: bool
  offline :: bool
  userPublicKey :: "bytes option"

record Room =
  name :: string
  description :: "string option"
  members :: "string list"
  publicKey :: bytes
  privateKey :: bytes
  armoredPublicKey :: string

subsection \<open>SQL statements\<close>

text \<open>\<open>update ... where key = k\<close>: changes the row of that key, if there is one.\<close>

definition update_users :: "string \<Rightarrow> (user_row \<Rightarrow> user_row) \<Rightarrow> database \<Rightarrow> database" where
  "update_users k f d =
     (case users_table d k of
        None \<Rightarrow> d
      | Some row \<Rightarrow> d\<lparr>users_table := (users_table d)(k \<mapsto> f row)\<rparr>)"

definition update_rooms :: "string \<Rightarrow> (room_row \<Rightarrow> room_row) \<Rightarrow> database \<Rightarrow> database" where
  "update_rooms k f d =
     (case rooms_table d k of
        None \<Rightarrow> d
      | Some row \<Rightarrow> d\<lparr>rooms_table := (rooms_table d)(k \<mapsto> f row)\<rparr>)"

text \<open>
  \<open>insert(...).onConflict("name").merge()\<close> on \<open>rooms\<close>: a new row takes the column
  default for \<open>members\<close>; on a conflict the inserted columns overwrite the old row's.
\<close>

definition insert_room_merge ::
  "string \<Rightarrow> string option \<Rightarrow> bytes \<Rightarrow> bytes \<Rightarrow> database \<Rightarrow> database" where
  "insert_room_merge k desc pk sk d =
     (case rooms_table d k of
        None \<Rightarrow> d\<lparr>rooms_table := (rooms_table d)(k \<mapsto>
          \<lparr>r_description = desc, r_members = [], r_publicKey = pk, r_privateKey = sk\<rparr>)\<rparr>
      | Some row \<Rightarrow> d\<lparr>rooms_table := (rooms_table d)(k \<mapsto>
          row\<lparr>r_description := desc, r_publicKey := pk, r_privateKey := sk\<rparr>)\<rparr>)"

text \<open>
  \<open>db.transaction\<close> with a handler of two awaited updates, on the one connection of the
  client. When an update rejects, the handler rejects, the client rolls the transaction
  back and the promise rejects: the database is the one before \<open>BEGIN\<close>. When the handler
  has returned and \<open>COMMIT\<close> itself fails, the promise rejects too, but the client issues
  no \<open>ROLLBACK\<close>: the connection, which serves every later query, keeps both updates.
\<close>

datatype trx_fault = NoFault | FirstUpdateFails | SecondUpdateFails | CommitFails

definition trx_update ::
  "bool \<Rightarrow> (database \<Rightarrow> database) \<Rightarrow> database \<times> database \<Rightarrow> (database \<times> database) option" where
  "trx_update fails upd t = (if fails then None else Some (fst t, upd (snd t)))"

definition transaction ::
  "trx_fault \<Rightarrow> (database \<Rightarrow> database) \<Rightarrow> (database \<Rightarrow> database) \<Rightarrow> database
     \<Rightarrow> unit outcome \<times> database" where
  "transaction tf update1 update2 d =
     (case trx_update (tf = FirstUpdateFails) update1 (d, d) of
        None \<Rightarrow> (Rejects, d)
      | Some t1 \<Rightarrow>
          (case trx_update (tf = SecondUpdateFails) update2 t1 of
             None \<Rightarrow> (Rejects, fst t1)
           | Some t2 \<Rightarrow>
               if tf = CommitFails then (Rejects, snd t2) else (Returns (), snd t2)))"

subsection \<open>Users\<close>

definition getUserSession :: "bool \<Rightarrow> string \<Rightarrow> database \<Rightarrow> UserSession option" where
  "getUserSession fault uname d =
     (if fault then None
      else case users_table d uname of
        None \<Rightarrow> None
      | Some user \<Rightarrow>
          Some \<lparr>username = uname,
                displayName = u_displayName user,
                password = u_password user,
                color = u_color user,
                rooms = new_Set (u_rooms user),
                online = (u_online user \<noteq> 0),
                offline = (\<not> (u_online user \<noteq> 0)),
                userPublicKey = u_publicKey user\<rparr>)"

text \<open>
  \<open>createUserProfile\<close> answers \<open>true\<close>, \<open>false\<close> or, on a fault, \<open>null\<close> (\<open>None\<close>). The
  insert names three columns; the others take their defaults.
\<close>

definition createUserProfile ::
  "(string \<Rightarrow> nat \<Rightarrow> string \<Rightarrow> string) \<Rightarrow> bool \<Rightarrow> string \<Rightarrow> bool
     \<Rightarrow> string \<Rightarrow> string \<Rightarrow> string \<Rightarrow> database \<Rightarrow> bool option \<times> database" where
  "createUserProfile bcrypt_hash readFault salt insertFault uname pw col d =
     (if readFault then (None, d)
      else case users_table d uname of
        Some user \<Rightarrow> (Some False, d)
      | None \<Rightarrow>
          if insertFault then (None, d)
          else (Some True,
                d\<lparr>users_table := (users_table d)(uname \<mapsto>
                    \<lparr>u_displayName = None,
                     u_password = bcrypt_hash pw 10 salt,
                     u_color = col,
                     u_rooms = [],
                     u_online = 0,
                     u_publicKey = None\<rparr>)\<rparr>))"

text \<open>
  \<open>compareUserProfile\<close>: \<open>bcrypt_compare\<close> stands for \<open>bcrypt.compare\<close>; where the library
  rejects, the \<open>catch\<close> answers \<open>false\<close>, so the parameter answers \<open>False\<close> there.
\<close>

definition compareUserProfile ::
  "(string \<Rightarrow> string \<Rightarrow> bool) \<Rightarrow> bool \<Rightarrow> string \<Rightarrow> string \<Rightarrow> database \<Rightarrow> bool" where
  "compareUserProfile bcrypt_compare fault uname pw d =
     (if fault then False
      else case users_table d uname of
        None \<Rightarrow> False
      | Some user \<Rightarrow> bcrypt_compare pw (u_password user))"

definition updateUserProfile :: "bool \<Rightarrow> string \<Rightarrow> string \<Rightarrow> database \<Rightarrow> bool \<times> database" where
  "updateUserProfile fault uname col d =
     (if fault then (False, d)
      else (True, update_users uname (\<lambda>row. row\<lparr>u_color := col\<rparr>) d))"

definition setUserStatus :: "bool \<Rightarrow> string \<Rightarrow> bool \<Rightarrow> database \<Rightarrow> bool \<times> database" where
  "setUserStatus fault uname on d =
     (if fault then (False, d)
      else (True, update_users uname (\<lambda>row. row\<lparr>u_online := (if on then 1 else 0)\<rparr>) d))"

definition setUserPublicKey :: "bool \<Rightarrow> string \<Rightarrow> bytes \<Rightarrow> database \<Rightarrow> bool \<times> database" where
  "setUserPublicKey fault uname pk d =
     (if fault then (False, d)
      else (True, update_users uname (\<lambda>row. row\<lparr>u_publicKey := Some pk\<rparr>) d))"

definition getUserPublicKey :: "bool \<Rightarrow> string \<Rightarrow> database \<Rightarrow> bytes option" where
  "getUserPublicKey fault uname d =
     (if fault then None
      else case users_table d uname of
        None \<Rightarrow> None
      | Some row \<Rightarrow> u_publicKey row)"

subsection \<open>Rooms\<close>

definition existsRoom ::
  "(string \<Rightarrow> string) \<Rightarrow> bool \<Rightarrow> string \<Rightarrow> database \<Rightarrow> bool" where
  "existsRoom toLowerCase fault roomname d =
     (if fault then True
      else (case rooms_table d (toLowerCase roomname) of None \<Rightarrow> False | Some room \<Rightarrow> True))"

text \<open>
  \<open>createRoom\<close>: \<open>generated\<close> is what \<open>openpgp.generateKey\<close> resolves to, \<open>None\<close> when it
  rejects; the call is not guarded, so \<open>createRoom\<close> then rejects too.
\<close>

definition createRoom ::
  "(string \<Rightarrow> string) \<Rightarrow> bool \<Rightarrow> (bytes \<times> bytes) option \<Rightarrow> bool \<Rightarrow> string \<Rightarrow> string option \<Rightarrow> database
     \<Rightarrow> bool outcome \<times> database" where
  "createRoom toLowerCase existsFault generated insertFault roomname desc d =
     (if existsRoom toLowerCase existsFault roomname d then (Returns False, d)
      else case generated of
        None \<Rightarrow> (Rejects, d)
      | Some (pk, sk) \<Rightarrow>
          if insertFault then (Returns False, d)
          else (Returns True, insert_room_merge (toLowerCase roomname) desc pk sk d))"

text \<open>
  \<open>getRoom\<close>: \<open>armor\<close> stands for \<open>openpgp.readKey\<close> followed by \<open>key.armor()\<close>, \<open>None\<close>
  when the stored bytes are not a key; the rejection is caught like a storage fault.
\<close>

definition getRoom ::
  "(string \<Rightarrow> string) \<Rightarrow> (bytes \<Rightarrow> string option) \<Rightarrow> bool \<Rightarrow> string \<Rightarrow> database \<Rightarrow> Room option" where
  "getRoom toLowerCase armor fault roomname d =
     (if fault then None
      else case rooms_table d (toLowerCase roomname) of
        None \<Rightarrow> None
      | Some room \<Rightarrow>
          (case armor (r_publicKey room) of
             None \<Rightarrow> None
           | Some armored \<Rightarrow>
               Some \<lparr>name = toLowerCase roomname,
                     description = r_description room,
                     members = new_Set (r_members room),
                     publicKey = r_publicKey room,
                     privateKey = r_privateKey room,
                     armoredPublicKey = armored\<rparr>))"

subsection \<open>Membership\<close>

definition addUserToRoom ::
  "(string \<Rightarrow> string) \<Rightarrow> (bytes \<Rightarrow> string option) \<Rightarrow> bool \<Rightarrow> bool \<Rightarrow> trx_fault \<Rightarrow> string \<Rightarrow> string \<Rightarrow> database
     \<Rightarrow> bool \<times> database" where
  "addUserToRoom toLowerCase armor userFault roomFault trxFault uname roomname d =
     (case getUserSession userFault uname d of
        None \<Rightarrow> (False, d)
      | Some user \<Rightarrow>
          (case getRoom toLowerCase armor roomFault roomname d of
             None \<Rightarrow> (False, d)
           | Some room \<Rightarrow>
               (let user_rooms = Set_add roomname (rooms user);
                    room_members = Set_add uname (members room)
                in case transaction trxFault
                       (update_users uname (\<lambda>row. row\<lparr>u_rooms := user_rooms\<rparr>))
                       (update_rooms roomname (\<lambda>row. row\<lparr>r_members := room_members\<rparr>)) d of
                     (Returns u, d') \<Rightarrow> (True, d')
                   | (Rejects, d') \<Rightarrow> (False, d'))))"

definition removeUserFromRoom ::
  "(string \<Rightarrow> string) \<Rightarrow> (bytes \<Rightarrow> string option) \<Rightarrow> bool \<Rightarrow> bool \<Rightarrow> trx_fault \<Rightarrow> string \<Rightarrow> string \<Rightarrow> database
     \<Rightarrow> bool \<times> database" where
  "removeUserFromRoom toLowerCase armor userFault roomFault trxFault uname roomname d =
     (case getUserSession userFault uname d of
        None \<Rightarrow> (False, d)
      | Some user \<Rightarrow>
          (case getRoom toLowerCase armor roomFault roomname d of
             None \<Rightarrow> (False, d)
           | Some room \<Rightarrow>
               (let user_rooms = Set_delete roomname (rooms user);
                    room_members = Set_delete uname (members room)
                in case transaction trxFault
                       (update_users uname (\<lambda>row. row\<lparr>u_rooms := user_rooms\<rparr>))
                       (update_rooms roomname (\<lambda>row. row\<lparr>r_members := room_members\<rparr>)) d of
                     (Returns u, d') \<Rightarrow> (True, d')
                   | (Rejects, d') \<Rightarrow> (False, d'))))"

text \<open>
  \<open>getUserViews\<close>: the loop over \<open>user.rooms\<close> calls \<open>getRoom\<close> once for each room name of
  the set, so the faults of these reads are given per room name.
\<close>

fun collectViewers ::
  "(string \<Rightarrow> string) \<Rightarrow> (bytes \<Rightarrow> string option) \<Rightarrow> (string \<Rightarrow> bool) \<Rightarrow> database \<Rightarrow> string list \<Rightarrow> string list
     \<Rightarrow> string list" where
  "collectViewers toLowerCase armor roomFault d [] viewers = viewers"
| "collectViewers toLowerCase armor roomFault d (roomname # rest) viewers =
     (case getRoom toLowerCase armor (roomFault roomname) roomname d of
        None \<Rightarrow> collectViewers toLowerCase armor roomFault d rest viewers
      | Some room \<Rightarrow> collectViewers toLowerCase armor roomFault d rest (fold Set_add (members room) viewers))"

definition getUserViews ::
  "(string \<Rightarrow> string) \<Rightarrow> (bytes \<Rightarrow> string option) \<Rightarrow> bool \<Rightarrow> (string \<Rightarrow> bool) \<Rightarrow> string \<Rightarrow> database
     \<Rightarrow> string list option" where
  "getUserViews toLowerCase armor userFault roomFault uname d =
     (case getUserSession userFault uname d of
        None \<Rightarrow> None
      | Some user \<Rightarrow> Some (collectViewers toLowerCase armor roomFault d (rooms user) []))"

subsection \<open>Properties of a database, and data for the examples\<close>

text \<open>Every stored room name is in lower case: \<open>toLowerCase\<close> leaves it as it is.\<close>

definition rooms_lowercase ::
  "(string \<Rightarrow> string) \<Rightarrow> database \<Rightarrow> bool" where
  "rooms_lowercase toLowerCase d \<longleftrightarrow> (\<forall>k. rooms_table d k \<noteq> None \<longrightarrow> toLowerCase k = k)"

text \<open>
  Membership symmetry over the stored rows: a room name is in the \<open>rooms\<close> column of a
  user's row exactly when that room has a row whose \<open>members\<close> column holds the user.
\<close>

definition membership_symmetric :: "database \<Rightarrow> bool" where
  "membership_symmetric d \<longleftrightarrow>
     (\<forall>u r. (\<exists>user. users_table d u = Some user \<and> r \<in> set (u_rooms user)) =
            (\<exists>room. rooms_table d r = Some room \<and> u \<in> set (r_members room)))"

text \<open>The database after the module has created its two tables.\<close>

definition empty_db :: database where
  "empty_db = \<lparr>users_table = Map.empty, rooms_table = Map.empty\<rparr>"

text \<open>
  The stand-ins for the library functions in the examples. \<open>ascii_toLowerCase\<close> folds the
  letters \<open>A\<close> to \<open>Z\<close>, which is what \<open>String.prototype.toLowerCase\<close> does to a string of
  ASCII characters; every name of the examples is such a string.
\<close>

definition ascii_lower_char :: "char \<Rightarrow> char" where
  "ascii_lower_char c =
     (let n = (of_char c :: nat) in if 65 \<le> n \<and> n \<le> 90 then char_of (n + 32) else c)"

definition ascii_toLowerCase :: "string \<Rightarrow> string" where
  "ascii_toLowerCase s = map ascii_lower_char s"

definition example_armor :: "bytes \<Rightarrow> string option" where
  "example_armor k = (if k = [] then None else Some ''-----BEGIN PGP PUBLIC KEY BLOCK-----'')"

definition example_db :: database where
  "example_db =
     \<lparr>users_table = [''alice'' \<mapsto>
        \<lparr>u_displayName = None, u_password = ''h'', u_color = ''red'', u_rooms = [],
         u_online = 1, u_publicKey = None\<rparr>],
      rooms_table = [''general'' \<mapsto>
        \<lparr>r_description = None, r_members = [], r_publicKey = [1, 2], r_privateKey = [3, 4]\<rparr>]\<rparr>"

definition example_db_joined :: database where
  "example_db_joined =
     \<lparr>users_table = [''alice'' \<mapsto>
        \<lparr>u_displayName = None, u_password = ''h'', u_color = ''red'', u_rooms = [''general''],
         u_online = 1, u_publicKey = None\<rparr>],
      rooms_table = [''general'' \<mapsto>
        \<lparr>r_description = None, r_members = [''alice''], r_publicKey = [1, 2], r_privateKey = [3, 4]\<rparr>]\<rparr>"

definition example_db_mixed :: database where
  "example_db_mixed =
     \<lparr>users_table = [''alice'' \<mapsto>
        \<lparr>u_displayName = None, u_password = ''h'', u_color = ''red'', u_rooms = [''General''],
         u_online = 1, u_publicKey = None\<rparr>],
      rooms_table = [''general'' \<mapsto>
        \<lparr>r_description = None, r_members = [], r_publicKey = [1, 2], r_privateKey = [3, 4]\<rparr>]\<rparr>"

text \<open>
  The members of a room, as one iteration of the loop of \<open>getUserViews\<close> reads them:
  none when \<open>getRoom\<close> returns \<open>null\<close>.
\<close>

definition loaded_members ::
  "(string \<Rightarrow> string) \<Rightarrow> (bytes \<Rightarrow> string option) \<Rightarrow> (string \<Rightarrow> bool) \<Rightarrow> database \<Rightarrow> string \<Rightarrow> string set" where
  "loaded_members toLowerCase armor roomFault d roomname =
     (case getRoom toLowerCase armor (roomFault roomname) roomname d of
        None \<Rightarrow> {}
      | Some room \<Rightarrow> set (members room))"

text \<open>
  A run of the module: any sequence of calls of the exported functions that write, each
  with the faults it meets. The hasher and the key reader are the same for every call.
\<close>

datatype call =
    CreateUserProfile bool string bool string string string
  | UpdateUserProfile bool string string
  | SetUserStatus bool string bool
  | SetUserPublicKey bool string bytes
  | AddUserToRoom bool bool trx_fault string string
  | RemoveUserFromRoom bool bool trx_fault string string
  | CreateRoom bool "(bytes \<times> bytes) option" bool string "string option"

fun perform ::
  "(string \<Rightarrow> string) \<Rightarrow> (string \<Rightarrow> nat \<Rightarrow> string \<Rightarrow> string) \<Rightarrow> (bytes \<Rightarrow> string option) \<Rightarrow> call \<Rightarrow> database
     \<Rightarrow> database" where
  "perform toLowerCase h armor (CreateUserProfile readFault salt insertFault uname pw col) d =
     snd (createUserProfile h readFault salt insertFault uname pw col d)"
| "perform toLowerCase h armor (UpdateUserProfile fault uname col) d = snd (updateUserProfile fault uname col d)"
| "perform toLowerCase h armor (SetUserStatus fault uname on) d = snd (setUserStatus fault uname on d)"
| "perform toLowerCase h armor (SetUserPublicKey fault uname pk) d = snd (setUserPublicKey fault uname pk d)"
| "perform toLowerCase h armor (AddUserToRoom userFault roomFault trxFault uname roomname) d =
     snd (addUserToRoom toLowerCase armor userFault roomFault trxFault uname roomname d)"
| "perform toLowerCase h armor (RemoveUserFromRoom userFault roomFault trxFault uname roomname) d =
     snd (removeUserFromRoom toLowerCase armor userFault roomFault trxFault uname roomname d)"
| "perform toLowerCase h armor (CreateRoom existsFault generated insertFault roomname desc) d =
     snd (createRoom toLowerCase existsFault generated insertFault roomname desc d)"

definition perform_all ::
  "(string \<Rightarrow> string) \<Rightarrow> (string \<Rightarrow> nat \<Rightarrow> string \<Rightarrow> string) \<Rightarrow> (bytes \<Rightarrow> string option) \<Rightarrow> call list \<Rightarrow> database
     \<Rightarrow> database" where
  "perform_all toLowerCase h armor calls d = fold (perform toLowerCase h armor) calls d"

text \<open>
  More example data: a toy hasher, two runs, the database of the observers example, and
  the faults of a \<open>getUserViews\<close> whose read of room \<open>y\<close> fails.
\<close>

definition example_created :: "call list" where
  "example_created = [CreateRoom False (Some ([1, 2], [3, 4])) False ''General'' None]"

definition fault_on_y :: "string \<Rightarrow> bool" where
  "fault_on_y roomname = (roomname = ''y'')"

definition example_hash :: "string \<Rightarrow> nat \<Rightarrow> string \<Rightarrow> string" where
  "example_hash pw rounds salt = salt @ CHR ''$'' # pw"

definition example_compare :: "string \<Rightarrow> string \<Rightarrow> bool" where
  "example_compare pw hashed = (dropWhile (\<lambda>c. c \<noteq> CHR ''$'') hashed = CHR ''$'' # pw)"

definition example_calls :: "call list" where
  "example_calls =
     [AddUserToRoom False False NoFault ''alice'' ''lobby'',
      SetUserStatus False ''alice'' False,
      CreateRoom False (Some ([5], [6])) False ''LOBBY'' (Some ''again''),
      CreateUserProfile False ''cd'' False ''bob'' ''other'' ''green'',
      UpdateUserProfile False ''bob'' ''blue'']"

definition observers_db :: database where
  "observers_db =
     \<lparr>users_table =
        [''A'' \<mapsto> \<lparr>u_displayName = None, u_password = ''h'', u_color = ''red'',
                   u_rooms = [''x'', ''y''], u_online = 1, u_publicKey = None\<rparr>,
         ''B'' \<mapsto> \<lparr>u_displayName = None, u_password = ''h'', u_color = ''red'',
                   u_rooms = [''x''], u_online = 0, u_publicKey = None\<rparr>,
         ''C'' \<mapsto> \<lparr>u_displayName = None, u_password = ''h'', u_color = ''red'',
                   u_rooms = [''y''], u_online = 0, u_publicKey = None\<rparr>],
      rooms_table =
        [''x'' \<mapsto> \<lparr>r_description = None, r_members = [''A'', ''B''], r_publicKey = [1],
                   r_privateKey = [2]\<rparr>,
         ''y'' \<mapsto> \<lparr>r_description = None, r_members = [''A'', ''C''], r_publicKey = [3],
                   r_privateKey = [4]\<rparr>]\<rparr>"

text \<open>A call that names its room, if it is a join or a leave, in lower case.\<close>

fun lowercase_call ::
  "(string \<Rightarrow> string) \<Rightarrow> call \<Rightarrow> bool" where
  "lowercase_call toLowerCase (AddUserToRoom userFault roomFault trxFault uname roomname) =
     (toLowerCase roomname = roomname)"
| "lowercase_call toLowerCase (RemoveUserFromRoom userFault roomFault trxFault uname roomname) =
     (toLowerCase roomname = roomname)"
| "lowercase_call toLowerCase c = True"

section \<open>Lemmas\<close>

subsection \<open>Sets\<close>

lemma set_Set_add: "set (Set_add x s) = insert x (set s)"
  by (auto simp: Set_add_def)

lemma set_Set_delete: "set (Set_delete x s) = set s - {x}"
  by (auto simp: Set_delete_def)

lemma distinct_Set_add: "distinct s \<Longrightarrow> distinct (Set_add x s)"
  by (simp add: Set_add_def)

lemma distinct_Set_delete: "distinct s \<Longrightarrow> distinct (Set_delete x s)"
  by (simp add: Set_delete_def)

lemma set_fold_Set_add: "set (fold Set_add xs s) = set xs \<union> set s"
  by (induction xs arbitrary: s) (auto simp: set_Set_add)

lemma distinct_fold_Set_add: "distinct s \<Longrightarrow> distinct (fold Set_add xs s)"
  by (induction xs arbitrary: s) (auto simp: distinct_Set_add)

lemma set_new_Set: "set (new_Set xs) = set xs"
  by (simp add: new_Set_def set_fold_Set_add)

lemma distinct_new_Set: "distinct (new_Set xs)"
  by (simp add: new_Set_def distinct_fold_Set_add)

lemma fold_Set_add_distinct: "distinct (s @ xs) \<Longrightarrow> fold Set_add xs s = s @ xs"
  by (induction xs arbitrary: s) (auto simp: Set_add_def)

lemma new_Set_distinct: "distinct xs \<Longrightarrow> new_Set xs = xs"
  using fold_Set_add_distinct [of "[]" xs] by (simp add: new_Set_def)

lemma new_Set_Set_add: "new_Set (Set_add x (new_Set xs)) = Set_add x (new_Set xs)"
  by (simp add: new_Set_distinct distinct_new_Set distinct_Set_add)

lemma new_Set_Set_delete: "new_Set (Set_delete x (new_Set xs)) = Set_delete x (new_Set xs)"
  by (simp add: new_Set_distinct distinct_new_Set distinct_Set_delete)

lemma Set_add_idem: "Set_add x (Set_add x s) = Set_add x s"
  by (simp add: Set_add_def)

lemma Set_delete_idem: "Set_delete x (Set_delete x s) = Set_delete x s"
  by (simp add: Set_delete_def)

subsection \<open>The example data\<close>

lemma lower_General: "ascii_toLowerCase ''General'' = ''general''"
  by code_simp

lemma lower_GENERAL: "ascii_toLowerCase ''GENERAL'' = ''general''"
  by code_simp

lemma lower_general: "ascii_toLowerCase ''general'' = ''general''"
  by code_simp


lemma example_db_lowercase: "rooms_lowercase ascii_toLowerCase example_db"
  by (simp add: rooms_lowercase_def example_db_def lower_general)

lemma example_db_symmetric: "membership_symmetric example_db"
  by (simp add: membership_symmetric_def example_db_def)

subsection \<open>Membership calls\<close>

lemma transaction_cases:
  "transaction tf update1 update2 d =
     (if tf = NoFault then (Returns (), update2 (update1 d))
      else if tf = CommitFails then (Rejects, update2 (update1 d))
      else (Rejects, d))"
  by (cases tf) (simp_all add: transaction_def trx_update_def)

lemma addUserToRoom_result:
  "addUserToRoom toLowerCase armor userFault roomFault trxFault uname roomname d =
     (case getUserSession userFault uname d of
        None \<Rightarrow> (False, d)
      | Some user \<Rightarrow>
          (case getRoom toLowerCase armor roomFault roomname d of
             None \<Rightarrow> (False, d)
           | Some room \<Rightarrow>
               if trxFault = NoFault \<or> trxFault = CommitFails
               then (trxFault = NoFault,
                     update_rooms roomname (\<lambda>row. row\<lparr>r_members := Set_add uname (members room)\<rparr>)
                       (update_users uname (\<lambda>row. row\<lparr>u_rooms := Set_add roomname (rooms user)\<rparr>) d))
               else (False, d)))"
  by (simp add: addUserToRoom_def transaction_cases Let_def split: option.splits)

lemma removeUserFromRoom_result:
  "removeUserFromRoom toLowerCase armor userFault roomFault trxFault uname roomname d =
     (case getUserSession userFault uname d of
        None \<Rightarrow> (False, d)
      | Some user \<Rightarrow>
          (case getRoom toLowerCase armor roomFault roomname d of
             None \<Rightarrow> (False, d)
           | Some room \<Rightarrow>
               if trxFault = NoFault \<or> trxFault = CommitFails
               then (trxFault = NoFault,
                     update_rooms roomname (\<lambda>row. row\<lparr>r_members := Set_delete uname (members room)\<rparr>)
                       (update_users uname (\<lambda>row. row\<lparr>u_rooms := Set_delete roomname (rooms user)\<rparr>) d))
               else (False, d)))"
  by (simp add: removeUserFromRoom_def transaction_cases Let_def split: option.splits)

lemma users_update_users:
  "users_table (update_users k f d) k' =
     (if k' = k then map_option f (users_table d k) else users_table d k')"
  by (simp add: update_users_def split: option.splits)

lemma rooms_update_users: "rooms_table (update_users k f d) = rooms_table d"
  by (simp add: update_users_def split: option.splits)

lemma rooms_update_rooms:
  "rooms_table (update_rooms k f d) k' =
     (if k' = k then map_option f (rooms_table d k) else rooms_table d k')"
  by (simp add: update_rooms_def split: option.splits)

lemma users_update_rooms: "users_table (update_rooms k f d) = users_table d"
  by (simp add: update_rooms_def split: option.splits)

lemma database_eqI:
  fixes d d' :: database
  assumes "\<And>k. users_table d k = users_table d' k" and "\<And>k. rooms_table d k = rooms_table d' k"
  shows "d = d'"
proof -
  from assms have "users_table d = users_table d'" and "rooms_table d = rooms_table d'"
    by auto
  then show ?thesis by simp
qed

lemma addUserToRoom_again:
  assumes first: "addUserToRoom toLowerCase armor uf rf tf uname roomname d = (True, d1)"
  shows "snd (addUserToRoom toLowerCase armor uf2 rf2 tf2 uname roomname d1) = d1"
proof -
  from first obtain urow rrow armored where
    urow: "users_table d uname = Some urow" and
    rrow: "rooms_table d (toLowerCase roomname) = Some rrow" and
    arm: "armor (r_publicKey rrow) = Some armored" and
    d1: "d1 = update_rooms roomname (\<lambda>row. row\<lparr>r_members := Set_add uname (new_Set (r_members rrow))\<rparr>)
           (update_users uname (\<lambda>row. row\<lparr>u_rooms := Set_add roomname (new_Set (u_rooms urow))\<rparr>) d)"
    by (auto simp: addUserToRoom_result getUserSession_def getRoom_def
        split: option.splits if_splits)
  show ?thesis
    unfolding d1
    by (rule database_eqI)
      (auto simp: addUserToRoom_result getUserSession_def getRoom_def urow rrow arm
        users_update_users rooms_update_users rooms_update_rooms users_update_rooms
        new_Set_Set_add Set_add_idem
        split: option.splits if_splits)
qed

lemma removeUserFromRoom_again:
  assumes first: "removeUserFromRoom toLowerCase armor uf rf tf uname roomname d = (True, d1)"
  shows "snd (removeUserFromRoom toLowerCase armor uf2 rf2 tf2 uname roomname d1) = d1"
proof -
  from first obtain urow rrow armored where
    urow: "users_table d uname = Some urow" and
    rrow: "rooms_table d (toLowerCase roomname) = Some rrow" and
    arm: "armor (r_publicKey rrow) = Some armored" and
    d1: "d1 = update_rooms roomname (\<lambda>row. row\<lparr>r_members := Set_delete uname (new_Set (r_members rrow))\<rparr>)
           (update_users uname (\<lambda>row. row\<lparr>u_rooms := Set_delete roomname (new_Set (u_rooms urow))\<rparr>) d)"
    by (auto simp: removeUserFromRoom_result getUserSession_def getRoom_def
        split: option.splits if_splits)
  show ?thesis
    unfolding d1
    by (rule database_eqI)
      (auto simp: removeUserFromRoom_result getUserSession_def getRoom_def urow rrow arm
        users_update_users rooms_update_users rooms_update_rooms users_update_rooms
        new_Set_Set_delete Set_delete_idem
        split: option.splits if_splits)
qed

lemma addUserToRoom_changed:
  assumes "snd (addUserToRoom toLowerCase armor uf rf tf uname roomname d) \<noteq> d"
  obtains urow rrow armored where
    "users_table d uname = Some urow" and
    "rooms_table d (toLowerCase roomname) = Some rrow" and
    "armor (r_publicKey rrow) = Some armored" and
    "snd (addUserToRoom toLowerCase armor uf rf tf uname roomname d)
       = update_rooms roomname (\<lambda>row. row\<lparr>r_members := Set_add uname (new_Set (r_members rrow))\<rparr>)
           (update_users uname (\<lambda>row. row\<lparr>u_rooms := Set_add roomname (new_Set (u_rooms urow))\<rparr>) d)"
  using assms
  by (auto simp: addUserToRoom_result getUserSession_def getRoom_def
      split: option.splits if_splits)

lemma removeUserFromRoom_changed:
  assumes "snd (removeUserFromRoom toLowerCase armor uf rf tf uname roomname d) \<noteq> d"
  obtains urow rrow armored where
    "users_table d uname = Some urow" and
    "rooms_table d (toLowerCase roomname) = Some rrow" and
    "armor (r_publicKey rrow) = Some armored" and
    "snd (removeUserFromRoom toLowerCase armor uf rf tf uname roomname d)
       = update_rooms roomname (\<lambda>row. row\<lparr>r_members := Set_delete uname (new_Set (r_members rrow))\<rparr>)
           (update_users uname (\<lambda>row. row\<lparr>u_rooms := Set_delete roomname (new_Set (u_rooms urow))\<rparr>) d)"
  using assms
  by (auto simp: removeUserFromRoom_result getUserSession_def getRoom_def
      split: option.splits if_splits)

lemma addUserToRoom_fault_free_fails:
  "\<not> fst (addUserToRoom toLowerCase armor False False NoFault uname roomname d) \<Longrightarrow>
     addUserToRoom toLowerCase armor uf rf tf uname roomname d = (False, d)"
  by (auto simp: addUserToRoom_result getUserSession_def getRoom_def split: option.splits if_splits)

lemma removeUserFromRoom_fault_free_fails:
  "\<not> fst (removeUserFromRoom toLowerCase armor False False NoFault uname roomname d) \<Longrightarrow>
     removeUserFromRoom toLowerCase armor uf rf tf uname roomname d = (False, d)"
  by (auto simp: removeUserFromRoom_result getUserSession_def getRoom_def split: option.splits if_splits)

lemma addUserToRoom_twice:
  "snd (addUserToRoom toLowerCase armor uf rf tf uname roomname
          (snd (addUserToRoom toLowerCase armor False False NoFault uname roomname d)))
     = snd (addUserToRoom toLowerCase armor False False NoFault uname roomname d)"
proof (cases "fst (addUserToRoom toLowerCase armor False False NoFault uname roomname d)")
  case True
  then have "addUserToRoom toLowerCase armor False False NoFault uname roomname d
      = (True, snd (addUserToRoom toLowerCase armor False False NoFault uname roomname d))"
    by (simp add: prod_eq_iff)
  then show ?thesis by (rule addUserToRoom_again)
next
  case False
  then show ?thesis
    by (simp add: addUserToRoom_fault_free_fails)
qed

lemma removeUserFromRoom_twice:
  "snd (removeUserFromRoom toLowerCase armor uf rf tf uname roomname
          (snd (removeUserFromRoom toLowerCase armor False False NoFault uname roomname d)))
     = snd (removeUserFromRoom toLowerCase armor False False NoFault uname roomname d)"
proof (cases "fst (removeUserFromRoom toLowerCase armor False False NoFault uname roomname d)")
  case True
  then have "removeUserFromRoom toLowerCase armor False False NoFault uname roomname d
      = (True, snd (removeUserFromRoom toLowerCase armor False False NoFault uname roomname d))"
    by (simp add: prod_eq_iff)
  then show ?thesis by (rule removeUserFromRoom_again)
next
  case False
  then show ?thesis
    by (simp add: removeUserFromRoom_fault_free_fails)
qed

lemma membership_call_succeeds:
  assumes "users_table d uname = Some urow" and "rooms_table d (toLowerCase roomname) = Some rrow"
    and "armor (r_publicKey rrow) = Some armored"
  shows "fst (addUserToRoom toLowerCase armor False False NoFault uname roomname d)"
    and "fst (removeUserFromRoom toLowerCase armor False False NoFault uname roomname d)"
  using assms
  by (simp_all add: addUserToRoom_result removeUserFromRoom_result getUserSession_def getRoom_def)

lemma membership_call_keeps_existence:
  "users_table (snd (addUserToRoom toLowerCase armor uf rf tf uname roomname d)) k = None \<longleftrightarrow> users_table d k = None"
  "rooms_table (snd (addUserToRoom toLowerCase armor uf rf tf uname roomname d)) k = None \<longleftrightarrow> rooms_table d k = None"
  "users_table (snd (removeUserFromRoom toLowerCase armor uf rf tf uname roomname d)) k = None \<longleftrightarrow> users_table d k = None"
  "rooms_table (snd (removeUserFromRoom toLowerCase armor uf rf tf uname roomname d)) k = None \<longleftrightarrow> rooms_table d k = None"
  by (auto simp: addUserToRoom_result removeUserFromRoom_result
      users_update_users rooms_update_users rooms_update_rooms users_update_rooms
      split: option.splits if_splits)

lemma example_join:
  assumes "toLowerCase ''general'' = ''general''"
  shows "addUserToRoom toLowerCase example_armor False False trxFault ''alice'' ''general'' example_db
     = (trxFault = NoFault,
        if trxFault = NoFault \<or> trxFault = CommitFails then example_db_joined else example_db)"
  by (simp add: addUserToRoom_result getUserSession_def getRoom_def example_db_def
      example_db_joined_def example_armor_def assms update_users_def update_rooms_def
      new_Set_def Set_add_def)

lemma example_leave:
  "removeUserFromRoom ascii_toLowerCase example_armor False False NoFault ''alice'' ''general'' example_db_joined
     = (True, example_db)"
  by (simp add: removeUserFromRoom_result getUserSession_def getRoom_def example_db_def
      example_db_joined_def example_armor_def lower_general update_users_def update_rooms_def
      new_Set_def Set_add_def Set_delete_def)

lemma example_leave_absent:
  "removeUserFromRoom ascii_toLowerCase example_armor False False NoFault ''alice'' ''general'' example_db
     = (True, example_db)"
  by (simp add: removeUserFromRoom_result getUserSession_def getRoom_def example_db_def
      example_armor_def lower_general update_users_def update_rooms_def
      new_Set_def Set_add_def Set_delete_def)

lemma example_db_joined_neq: "example_db_joined \<noteq> example_db"
proof
  assume "example_db_joined = example_db"
  then have "users_table example_db_joined ''alice'' = users_table example_db ''alice''"
    by simp
  then show False by (simp add: example_db_joined_def example_db_def)
qed

lemma addUserToRoom_success:
  assumes "addUserToRoom toLowerCase armor uf rf tf uname roomname d = (True, d1)"
  obtains urow rrow armored where
    "users_table d uname = Some urow" and
    "rooms_table d (toLowerCase roomname) = Some rrow" and
    "armor (r_publicKey rrow) = Some armored" and
    "d1 = update_rooms roomname (\<lambda>row. row\<lparr>r_members := Set_add uname (new_Set (r_members rrow))\<rparr>)
           (update_users uname (\<lambda>row. row\<lparr>u_rooms := Set_add roomname (new_Set (u_rooms urow))\<rparr>) d)"
  using assms
  by (auto simp: addUserToRoom_result getUserSession_def getRoom_def
      split: option.splits if_splits)

lemma removeUserFromRoom_success:
  assumes "removeUserFromRoom toLowerCase armor uf rf tf uname roomname d = (True, d1)"
  obtains urow rrow armored where
    "users_table d uname = Some urow" and
    "rooms_table d (toLowerCase roomname) = Some rrow" and
    "armor (r_publicKey rrow) = Some armored" and
    "d1 = update_rooms roomname (\<lambda>row. row\<lparr>r_members := Set_delete uname (new_Set (r_members rrow))\<rparr>)
           (update_users uname (\<lambda>row. row\<lparr>u_rooms := Set_delete roomname (new_Set (u_rooms urow))\<rparr>) d)"
  using assms
  by (auto simp: removeUserFromRoom_result getUserSession_def getRoom_def
      split: option.splits if_splits)

lemma symmetricD:
  "membership_symmetric d \<Longrightarrow>
     (\<exists>user. users_table d u = Some user \<and> r \<in> set (u_rooms user)) =
     (\<exists>room. rooms_table d r = Some room \<and> u \<in> set (r_members room))"
  by (simp add: membership_symmetric_def)

lemma addUserToRoom_symmetric:
  assumes lower: "toLowerCase roomname = roomname" and sym: "membership_symmetric d"
  shows "membership_symmetric (snd (addUserToRoom toLowerCase armor uf rf tf uname roomname d))"
proof (cases "snd (addUserToRoom toLowerCase armor uf rf tf uname roomname d) = d")
  case True
  with sym show ?thesis by simp
next
  case False
  then obtain urow rrow armored where
    urow: "users_table d uname = Some urow" and
    rrow': "rooms_table d (toLowerCase roomname) = Some rrow" and
    "armor (r_publicKey rrow) = Some armored" and
    d1: "snd (addUserToRoom toLowerCase armor uf rf tf uname roomname d)
       = update_rooms roomname (\<lambda>row. row\<lparr>r_members := Set_add uname (new_Set (r_members rrow))\<rparr>)
           (update_users uname (\<lambda>row. row\<lparr>u_rooms := Set_add roomname (new_Set (u_rooms urow))\<rparr>) d)"
    by (rule addUserToRoom_changed)
  from rrow' lower have rrow: "rooms_table d roomname = Some rrow"
    by simp
  show ?thesis
    unfolding d1 membership_symmetric_def
  proof (intro allI)
    fix u r
    show "(\<exists>user. users_table (update_rooms roomname (\<lambda>row. row\<lparr>r_members := Set_add uname (new_Set (r_members rrow))\<rparr>)
           (update_users uname (\<lambda>row. row\<lparr>u_rooms := Set_add roomname (new_Set (u_rooms urow))\<rparr>) d)) u = Some user \<and> r \<in> set (u_rooms user)) =
          (\<exists>room. rooms_table (update_rooms roomname (\<lambda>row. row\<lparr>r_members := Set_add uname (new_Set (r_members rrow))\<rparr>)
           (update_users uname (\<lambda>row. row\<lparr>u_rooms := Set_add roomname (new_Set (u_rooms urow))\<rparr>) d)) r = Some room \<and> u \<in> set (r_members room))"
      using symmetricD [OF sym, of u r] urow rrow
      by (auto simp: users_update_users rooms_update_users rooms_update_rooms users_update_rooms
          set_Set_add set_new_Set)
  qed
qed

lemma removeUserFromRoom_symmetric:
  assumes lower: "toLowerCase roomname = roomname" and sym: "membership_symmetric d"
  shows "membership_symmetric (snd (removeUserFromRoom toLowerCase armor uf rf tf uname roomname d))"
proof (cases "snd (removeUserFromRoom toLowerCase armor uf rf tf uname roomname d) = d")
  case True
  with sym show ?thesis by simp
next
  case False
  then obtain urow rrow armored where
    urow: "users_table d uname = Some urow" and
    rrow': "rooms_table d (toLowerCase roomname) = Some rrow" and
    "armor (r_publicKey rrow) = Some armored" and
    d1: "snd (removeUserFromRoom toLowerCase armor uf rf tf uname roomname d)
       = update_rooms roomname (\<lambda>row. row\<lparr>r_members := Set_delete uname (new_Set (r_members rrow))\<rparr>)
           (update_users uname (\<lambda>row. row\<lparr>u_rooms := Set_delete roomname (new_Set (u_rooms urow))\<rparr>) d)"
    by (rule removeUserFromRoom_changed)
  from rrow' lower have rrow: "rooms_table d roomname = Some rrow"
    by simp
  show ?thesis
    unfolding d1 membership_symmetric_def
  proof (intro allI)
    fix u r
    show "(\<exists>user. users_table (update_rooms roomname (\<lambda>row. row\<lparr>r_members := Set_delete uname (new_Set (r_members rrow))\<rparr>)
           (update_users uname (\<lambda>row. row\<lparr>u_rooms := Set_delete roomname (new_Set (u_rooms urow))\<rparr>) d)) u = Some user \<and> r \<in> set (u_rooms user)) =
          (\<exists>room. rooms_table (update_rooms roomname (\<lambda>row. row\<lparr>r_members := Set_delete uname (new_Set (r_members rrow))\<rparr>)
           (update_users uname (\<lambda>row. row\<lparr>u_rooms := Set_delete roomname (new_Set (u_rooms urow))\<rparr>) d)) r = Some room \<and> u \<in> set (r_members room))"
      using symmetricD [OF sym, of u r] urow rrow
      by (auto simp: users_update_users rooms_update_users rooms_update_rooms users_update_rooms
          set_Set_delete set_new_Set)
  qed
qed

lemma addUserToRoom_mixed_case:
  assumes inv: "rooms_lowercase toLowerCase d" and mixed: "toLowerCase roomname \<noteq> roomname"
    and ok: "fst (addUserToRoom toLowerCase armor uf rf tf uname roomname d)"
  shows "\<not> membership_symmetric (snd (addUserToRoom toLowerCase armor uf rf tf uname roomname d))"
proof -
  from ok have "addUserToRoom toLowerCase armor uf rf tf uname roomname d
      = (True, snd (addUserToRoom toLowerCase armor uf rf tf uname roomname d))"
    by (simp add: prod_eq_iff)
  then obtain urow rrow armored where
    urow: "users_table d uname = Some urow" and
    "rooms_table d (toLowerCase roomname) = Some rrow" and
    "armor (r_publicKey rrow) = Some armored" and
    d1: "snd (addUserToRoom toLowerCase armor uf rf tf uname roomname d)
       = update_rooms roomname (\<lambda>row. row\<lparr>r_members := Set_add uname (new_Set (r_members rrow))\<rparr>)
           (update_users uname (\<lambda>row. row\<lparr>u_rooms := Set_add roomname (new_Set (u_rooms urow))\<rparr>) d)"
    by (rule addUserToRoom_success)
  from inv mixed have norow: "rooms_table d roomname = None"
    by (auto simp: rooms_lowercase_def)
  show ?thesis
  proof
    assume "membership_symmetric (snd (addUserToRoom toLowerCase armor uf rf tf uname roomname d))"
    from symmetricD [OF this, of uname roomname] show False
      by (simp add: d1 users_update_users rooms_update_users rooms_update_rooms users_update_rooms
          urow norow set_Set_add)
  qed
qed

lemma example_join_mixed:
  assumes "toLowerCase ''General'' = ''general''"
  shows "addUserToRoom toLowerCase example_armor False False NoFault ''alice'' ''General'' example_db
     = (True, example_db_mixed)"
  by (simp add: addUserToRoom_result getUserSession_def getRoom_def example_db_def
      example_db_mixed_def example_armor_def assms update_users_def update_rooms_def
      new_Set_def Set_add_def)

lemma example_db_mixed_asymmetric: "\<not> membership_symmetric example_db_mixed"
proof
  assume "membership_symmetric example_db_mixed"
  from symmetricD [OF this, of "''alice''" "''General''"] show False
    by (simp add: example_db_mixed_def)
qed

subsection \<open>Rooms, runs and observers\<close>

lemma createRoom_result:
  "createRoom toLowerCase existsFault generated insertFault roomname desc d =
     (if existsFault \<or> rooms_table d (toLowerCase roomname) \<noteq> None then (Returns False, d)
      else case generated of
        None \<Rightarrow> (Rejects, d)
      | Some (pk, sk) \<Rightarrow>
          if insertFault then (Returns False, d)
          else (Returns True,
                d\<lparr>rooms_table := (rooms_table d)(toLowerCase roomname \<mapsto>
                  \<lparr>r_description = desc, r_members = [], r_publicKey = pk, r_privateKey = sk\<rparr>)\<rparr>))"
  by (auto simp: createRoom_def existsRoom_def insert_room_merge_def split: option.splits)

lemma perform_keeps_room_keys:
  assumes "rooms_table d k = Some row"
  shows "\<exists>row'. rooms_table (perform toLowerCase h armor c d) k = Some row' \<and>
           r_publicKey row' = r_publicKey row \<and> r_privateKey row' = r_privateKey row"
  using assms
  by (cases c)
    (auto simp: createUserProfile_def updateUserProfile_def setUserStatus_def setUserPublicKey_def
      addUserToRoom_result removeUserFromRoom_result createRoom_result
      rooms_update_users rooms_update_rooms
      split: option.splits if_splits)

lemma perform_all_keeps_room_keys:
  "rooms_table d k = Some row \<Longrightarrow>
     \<exists>row'. rooms_table (perform_all toLowerCase h armor calls d) k = Some row' \<and>
           r_publicKey row' = r_publicKey row \<and> r_privateKey row' = r_privateKey row"
proof (induction calls arbitrary: d row)
  case Nil
  then show ?case by (simp add: perform_all_def)
next
  case (Cons c calls)
  from perform_keeps_room_keys [OF Cons.prems, of toLowerCase h armor c] obtain row1 where
    row1: "rooms_table (perform toLowerCase h armor c d) k = Some row1"
      "r_publicKey row1 = r_publicKey row" "r_privateKey row1 = r_privateKey row"
    by blast
  from Cons.IH [OF row1(1)] row1(2,3) show ?case
    by (simp add: perform_all_def)
qed

lemma perform_keeps_password:
  assumes "users_table d k = Some row"
  shows "\<exists>row'. users_table (perform toLowerCase h armor c d) k = Some row' \<and> u_password row' = u_password row"
  using assms
  by (cases c)
    (auto simp: createUserProfile_def updateUserProfile_def setUserStatus_def setUserPublicKey_def
      addUserToRoom_result removeUserFromRoom_result createRoom_result
      users_update_users users_update_rooms
      split: option.splits if_splits)

lemma perform_all_keeps_password:
  "users_table d k = Some row \<Longrightarrow>
     \<exists>row'. users_table (perform_all toLowerCase h armor calls d) k = Some row' \<and> u_password row' = u_password row"
proof (induction calls arbitrary: d row)
  case Nil
  then show ?case by (simp add: perform_all_def)
next
  case (Cons c calls)
  from perform_keeps_password [OF Cons.prems, of toLowerCase h armor c] obtain row1 where
    row1: "users_table (perform toLowerCase h armor c d) k = Some row1" "u_password row1 = u_password row"
    by blast
  from Cons.IH [OF row1(1)] row1(2) show ?case
    by (simp add: perform_all_def)
qed

lemma ascii_lower_char_idem: "ascii_lower_char (ascii_lower_char c) = ascii_lower_char c"
  by (auto simp: ascii_lower_char_def Let_def)

lemma ascii_toLowerCase_idem: "ascii_toLowerCase (ascii_toLowerCase s) = ascii_toLowerCase s"
  by (simp add: ascii_toLowerCase_def ascii_lower_char_idem)

lemma perform_keeps_lowercase:
  assumes idem: "\<And>s. toLowerCase (toLowerCase s) = toLowerCase s"
    and inv: "rooms_lowercase toLowerCase d"
  shows "rooms_lowercase toLowerCase (perform toLowerCase h armor c d)"
  using inv
  by (cases c)
    (auto simp: rooms_lowercase_def createUserProfile_def updateUserProfile_def setUserStatus_def
      setUserPublicKey_def addUserToRoom_result removeUserFromRoom_result createRoom_result
      rooms_update_users rooms_update_rooms idem
      split: option.splits if_splits)

lemma perform_all_keeps_lowercase:
  assumes idem: "\<And>s. toLowerCase (toLowerCase s) = toLowerCase s"
  shows "rooms_lowercase toLowerCase d \<Longrightarrow>
    rooms_lowercase toLowerCase (perform_all toLowerCase h armor calls d)"
  by (induction calls arbitrary: d) (simp_all add: perform_all_def perform_keeps_lowercase idem)

lemma empty_lowercase: "rooms_lowercase toLowerCase empty_db"
  by (simp add: rooms_lowercase_def empty_db_def)

lemma lower_Lobby: "ascii_toLowerCase ''Lobby'' = ''lobby''"
  by code_simp

lemma lower_LOBBY: "ascii_toLowerCase ''LOBBY'' = ''lobby''"
  by code_simp

lemma set_collectViewers:
  "set (collectViewers toLowerCase armor roomFault d rs viewers)
     = set viewers \<union> (\<Union>r\<in>set rs. loaded_members toLowerCase armor roomFault d r)"
  by (induction rs arbitrary: viewers)
    (auto simp: loaded_members_def set_fold_Set_add split: option.splits)

lemma distinct_collectViewers:
  "distinct viewers \<Longrightarrow> distinct (collectViewers toLowerCase armor roomFault d rs viewers)"
  by (induction rs arbitrary: viewers) (auto simp: distinct_fold_Set_add split: option.splits)

lemma lower_x: "ascii_toLowerCase ''x'' = ''x''"
  by code_simp

lemma lower_y: "ascii_toLowerCase ''y'' = ''y''"
  by code_simp

lemma observers_A:
  "getUserSession False ''A'' observers_db =
     Some \<lparr>username = ''A'', displayName = None, password = ''h'', color = ''red'',
           rooms = [''x'', ''y''], online = True, offline = False, userPublicKey = None\<rparr>"
  by (simp add: getUserSession_def observers_db_def new_Set_def Set_add_def)

lemma observers_x:
  "getRoom ascii_toLowerCase example_armor False ''x'' observers_db =
     Some \<lparr>name = ''x'', description = None, members = [''A'', ''B''], publicKey = [1],
           privateKey = [2], armoredPublicKey = ''-----BEGIN PGP PUBLIC KEY BLOCK-----''\<rparr>"
  by (simp add: getRoom_def observers_db_def example_armor_def lower_x new_Set_def Set_add_def)

lemma observers_y:
  "getRoom ascii_toLowerCase example_armor False ''y'' observers_db =
     Some \<lparr>name = ''y'', description = None, members = [''A'', ''C''], publicKey = [3],
           privateKey = [4], armoredPublicKey = ''-----BEGIN PGP PUBLIC KEY BLOCK-----''\<rparr>"
  by (simp add: getRoom_def observers_db_def example_armor_def lower_y new_Set_def Set_add_def)

lemma room_calls_normalize:
  assumes "toLowerCase roomname' = toLowerCase roomname"
  shows "existsRoom toLowerCase fault roomname' d = existsRoom toLowerCase fault roomname d"
    and "getRoom toLowerCase armor fault roomname' d = getRoom toLowerCase armor fault roomname d"
    and "createRoom toLowerCase existsFault generated insertFault roomname' desc d
           = createRoom toLowerCase existsFault generated insertFault roomname desc d"
  unfolding existsRoom_def getRoom_def createRoom_def assms by (rule refl)+

lemma createRoom_then_getRoom:
  assumes created: "createRoom toLowerCase existsFault (Some (pk, sk)) insertFault roomname desc d = (Returns True, d1)"
    and same: "toLowerCase roomname' = toLowerCase roomname"
  shows "existsRoom toLowerCase fault roomname' d1"
    and "armor pk = Some armored \<Longrightarrow>
         getRoom toLowerCase armor False roomname' d1 =
           Some \<lparr>name = toLowerCase roomname, description = desc, members = [], publicKey = pk,
                 privateKey = sk, armoredPublicKey = armored\<rparr>"
proof -
  from created have stored: "rooms_table d1 (toLowerCase roomname) =
      Some \<lparr>r_description = desc, r_members = [], r_publicKey = pk, r_privateKey = sk\<rparr>"
    by (auto simp: createRoom_result split: if_splits)
  with same show "existsRoom toLowerCase fault roomname' d1"
    by (simp add: existsRoom_def)
  from stored same show "getRoom toLowerCase armor False roomname' d1 =
      Some \<lparr>name = toLowerCase roomname, description = desc, members = [], publicKey = pk,
            privateKey = sk, armoredPublicKey = armored\<rparr>" if "armor pk = Some armored"
    using that by (simp add: getRoom_def new_Set_def)
qed

lemma example_db_mixed_neq: "example_db_mixed \<noteq> example_db_joined"
proof
  assume "example_db_mixed = example_db_joined"
  then have "users_table example_db_mixed ''alice'' = users_table example_db_joined ''alice''"
    by simp
  then show False by (simp add: example_db_joined_def example_db_mixed_def)
qed

subsection \<open>Symmetry along a run\<close>

lemma createUserProfile_symmetric:
  assumes sym: "membership_symmetric d"
  shows "membership_symmetric (snd (createUserProfile h readFault salt insertFault uname pw col d))"
proof (cases "fst (createUserProfile h readFault salt insertFault uname pw col d) = Some True")
  case False
  with sym show ?thesis
    by (auto simp: createUserProfile_def split: if_splits option.splits)
next
  case True
  then have absent: "users_table d uname = None"
    and d1: "snd (createUserProfile h readFault salt insertFault uname pw col d) =
      d\<lparr>users_table := (users_table d)(uname \<mapsto>
        \<lparr>u_displayName = None, u_password = h pw 10 salt, u_color = col, u_rooms = [],
         u_online = 0, u_publicKey = None\<rparr>)\<rparr>"
    by (auto simp: createUserProfile_def split: if_splits option.splits)
  show ?thesis
    unfolding d1 membership_symmetric_def
  proof (intro allI)
    fix u r
    from symmetricD [OF sym, of u r] absent
    show "(\<exists>user. users_table (d\<lparr>users_table := (users_table d)(uname \<mapsto>
        \<lparr>u_displayName = None, u_password = h pw 10 salt, u_color = col, u_rooms = [],
         u_online = 0, u_publicKey = None\<rparr>)\<rparr>) u = Some user \<and> r \<in> set (u_rooms user)) =
      (\<exists>room. rooms_table (d\<lparr>users_table := (users_table d)(uname \<mapsto>
        \<lparr>u_displayName = None, u_password = h pw 10 salt, u_color = col, u_rooms = [],
         u_online = 0, u_publicKey = None\<rparr>)\<rparr>) r = Some room \<and> u \<in> set (r_members room))"
      by auto
  qed
qed

lemma createRoom_symmetric:
  assumes sym: "membership_symmetric d"
  shows "membership_symmetric (snd (createRoom toLowerCase existsFault generated insertFault roomname desc d))"
proof (cases "fst (createRoom toLowerCase existsFault generated insertFault roomname desc d) = Returns True")
  case False
  with sym show ?thesis
    by (auto simp: createRoom_result split: if_splits option.splits)
next
  case True
  then obtain pk sk where absent: "rooms_table d (toLowerCase roomname) = None"
    and d1: "snd (createRoom toLowerCase existsFault generated insertFault roomname desc d) =
      d\<lparr>rooms_table := (rooms_table d)(toLowerCase roomname \<mapsto>
        \<lparr>r_description = desc, r_members = [], r_publicKey = pk, r_privateKey = sk\<rparr>)\<rparr>"
    by (auto simp: createRoom_result split: if_splits option.splits)
  show ?thesis
    unfolding d1 membership_symmetric_def
  proof (intro allI)
    fix u r
    from symmetricD [OF sym, of u r] absent
    show "(\<exists>user. users_table (d\<lparr>rooms_table := (rooms_table d)(toLowerCase roomname \<mapsto>
        \<lparr>r_description = desc, r_members = [], r_publicKey = pk, r_privateKey = sk\<rparr>)\<rparr>) u = Some user
          \<and> r \<in> set (u_rooms user)) =
      (\<exists>room. rooms_table (d\<lparr>rooms_table := (rooms_table d)(toLowerCase roomname \<mapsto>
        \<lparr>r_description = desc, r_members = [], r_publicKey = pk, r_privateKey = sk\<rparr>)\<rparr>) r = Some room
          \<and> u \<in> set (r_members room))"
      by auto
  qed
qed

lemma update_users_symmetric:
  assumes sym: "membership_symmetric d" and keeps: "\<And>row. u_rooms (f row) = u_rooms row"
  shows "membership_symmetric (update_users k f d)"
  unfolding membership_symmetric_def
proof (intro allI)
  fix u r
  from symmetricD [OF sym, of u r] keeps
  show "(\<exists>user. users_table (update_users k f d) u = Some user \<and> r \<in> set (u_rooms user)) =
      (\<exists>room. rooms_table (update_users k f d) r = Some room \<and> u \<in> set (r_members room))"
    by (auto simp: users_update_users rooms_update_users)
qed

lemma perform_symmetric:
  assumes "lowercase_call toLowerCase c" and "membership_symmetric d"
  shows "membership_symmetric (perform toLowerCase h armor c d)"
  using assms
  by (cases c)
    (auto simp: createUserProfile_symmetric createRoom_symmetric addUserToRoom_symmetric
      removeUserFromRoom_symmetric updateUserProfile_def setUserStatus_def setUserPublicKey_def
      update_users_symmetric)

lemma perform_all_symmetric:
  "list_all (lowercase_call toLowerCase) calls \<Longrightarrow> membership_symmetric d \<Longrightarrow>
     membership_symmetric (perform_all toLowerCase h armor calls d)"
  by (induction calls arbitrary: d) (simp_all add: perform_all_def perform_symmetric)

section \<open>The claims\<close>

text \<open>
  C1. Membership symmetry fails after a join under a name that is not in lower case:
  \<open>getRoom\<close> finds the room \<open>general\<close> for \<open>General\<close>, the user's row gets the name as
  given, and the update of the room's row, which looks for the name as given, changes no
  row. The call returns \<open>true\<close> from a symmetric database and leaves an asymmetric one,
  whatever \<open>toLowerCase\<close> does to other strings than \<open>General\<close>.
  (For names in lower case both calls keep the symmetry, \<open>addUserToRoom_symmetric\<close> and
  \<open>removeUserFromRoom_symmetric\<close>, and so does every run of calls whose joins and leaves
  name their rooms in lower case, \<open>perform_all_symmetric\<close>; where the stored names are in
  lower case, every join under another name that returns \<open>true\<close> breaks it,
  \<open>addUserToRoom_mixed_case\<close>.)
\<close>

theorem addUserToRoom_mixed_case_asymmetric:
  "toLowerCase ''General'' = ''general'' \<longrightarrow>
     membership_symmetric example_db \<and>
     addUserToRoom toLowerCase example_armor False False NoFault ''alice'' ''General'' example_db
       = (True, example_db_mixed) \<and>
     \<not> membership_symmetric example_db_mixed"
  by (simp add: example_db_symmetric example_join_mixed example_db_mixed_asymmetric)

theorem addUserToRoom_mixed_case_asymmetric_witness:
  "ascii_toLowerCase ''General'' = ''general'' \<and>
   membership_symmetric example_db \<and>
   addUserToRoom ascii_toLowerCase example_armor False False NoFault ''alice'' ''General'' example_db
     = (True, example_db_mixed) \<and>
   \<not> membership_symmetric example_db_mixed"
  using addUserToRoom_mixed_case_asymmetric [of ascii_toLowerCase] lower_General
  by simp




text \<open>
  C3. Names that differ only in case do not name the same room in the membership calls:
  from the same database, \<open>addUserToRoom\<close> for \<open>general\<close> records the name \<open>general\<close> for
  the user and adds the user to the room's members, while for \<open>General\<close> it records the
  name \<open>General\<close> and the room's members stay as they were; both calls return \<open>true\<close>.
  This holds for every \<open>toLowerCase\<close> that maps both names to \<open>general\<close>.
  (\<open>existsRoom\<close>, \<open>getRoom\<close> and \<open>createRoom\<close> do depend on the lower-cased name only:
  \<open>room_calls_normalize\<close>, \<open>createRoom_then_getRoom\<close>.)
\<close>

theorem addUserToRoom_case_sensitive:
  "toLowerCase ''General'' = ''general'' \<and> toLowerCase ''general'' = ''general'' \<longrightarrow>
     toLowerCase ''General'' = toLowerCase ''general'' \<and>
     addUserToRoom toLowerCase example_armor False False NoFault ''alice'' ''general'' example_db
       = (True, example_db_joined) \<and>
     addUserToRoom toLowerCase example_armor False False NoFault ''alice'' ''General'' example_db
       = (True, example_db_mixed) \<and>
     example_db_mixed \<noteq> example_db_joined \<and>
     map_option members (getRoom toLowerCase example_armor False ''General'' example_db_joined)
       = Some [''alice''] \<and>
     map_option members (getRoom toLowerCase example_armor False ''General'' example_db_mixed)
       = Some []"
proof (intro impI, elim conjE)
  assume upper: "toLowerCase ''General'' = ''general''"
    and lower: "toLowerCase ''general'' = ''general''"
  have joined:
    "map_option members (getRoom toLowerCase example_armor False ''General'' example_db_joined)
      = Some [''alice'']"
    by (simp add: upper getRoom_def example_db_joined_def example_armor_def
        new_Set_def Set_add_def)
  have mixed:
    "map_option members (getRoom toLowerCase example_armor False ''General'' example_db_mixed)
      = Some []"
    by (simp add: upper getRoom_def example_db_mixed_def example_armor_def new_Set_def)
  from joined mixed show
    "toLowerCase ''General'' = toLowerCase ''general'' \<and>
     addUserToRoom toLowerCase example_armor False False NoFault ''alice'' ''general'' example_db
       = (True, example_db_joined) \<and>
     addUserToRoom toLowerCase example_armor False False NoFault ''alice'' ''General'' example_db
       = (True, example_db_mixed) \<and>
     example_db_mixed \<noteq> example_db_joined \<and>
     map_option members (getRoom toLowerCase example_armor False ''General'' example_db_joined)
       = Some [''alice''] \<and>
     map_option members (getRoom toLowerCase example_armor False ''General'' example_db_mixed)
       = Some []"
    by (simp add: upper lower example_join example_join_mixed example_db_mixed_neq)
qed

theorem addUserToRoom_case_sensitive_witness:
  "ascii_toLowerCase ''General'' = ''general'' \<and> ascii_toLowerCase ''general'' = ''general'' \<and>
   addUserToRoom ascii_toLowerCase example_armor False False NoFault ''alice'' ''general'' example_db
     = (True, example_db_joined) \<and>
   addUserToRoom ascii_toLowerCase example_armor False False NoFault ''alice'' ''General'' example_db
     = (True, example_db_mixed) \<and>
   example_db_mixed \<noteq> example_db_joined \<and>
   map_option members (getRoom ascii_toLowerCase example_armor False ''General'' example_db_joined)
     = Some [''alice''] \<and>
   map_option members (getRoom ascii_toLowerCase example_armor False ''General'' example_db_mixed)
     = Some []"
  using addUserToRoom_case_sensitive [of ascii_toLowerCase] lower_General lower_general
  by simp

text \<open>
  C4. After \<open>createRoom\<close> has returned \<open>true\<close> with the generated pair, the room's row holds
  that pair, and after any run of calls it still does; a \<open>createRoom\<close> at that point for
  a name equal up to case, that is a name with the same \<open>toLowerCase\<close>, returns \<open>false\<close>,
  whatever faults it meets and whatever pair it would generate, and leaves the database as
  it was.
\<close>

theorem createRoom_keys_fixed:
  "createRoom toLowerCase existsFault (Some (pk, sk)) insertFault roomname desc d = (Returns True, d1) \<and>
   toLowerCase roomname' = toLowerCase roomname \<longrightarrow>
     (\<exists>row. rooms_table d1 (toLowerCase roomname) = Some row \<and>
        r_publicKey row = pk \<and> r_privateKey row = sk) \<and>
     (\<exists>row. rooms_table (perform_all toLowerCase h armor calls d1) (toLowerCase roomname) = Some row \<and>
        r_publicKey row = pk \<and> r_privateKey row = sk) \<and>
     createRoom toLowerCase existsFault' generated' insertFault' roomname' desc' (perform_all toLowerCase h armor calls d1)
       = (Returns False, perform_all toLowerCase h armor calls d1)"
proof (intro impI, elim conjE)
  assume created: "createRoom toLowerCase existsFault (Some (pk, sk)) insertFault roomname desc d = (Returns True, d1)"
    and same: "toLowerCase roomname' = toLowerCase roomname"
  from created have stored: "rooms_table d1 (toLowerCase roomname) =
      Some \<lparr>r_description = desc, r_members = [], r_publicKey = pk, r_privateKey = sk\<rparr>"
    by (auto simp: createRoom_result split: if_splits)
  from perform_all_keeps_room_keys [OF stored, of toLowerCase h armor calls] obtain row where
    later: "rooms_table (perform_all toLowerCase h armor calls d1) (toLowerCase roomname) = Some row"
      "r_publicKey row = pk" "r_privateKey row = sk"
    by auto
  from later(1) same have
    "createRoom toLowerCase existsFault' generated' insertFault' roomname' desc' (perform_all toLowerCase h armor calls d1)
       = (Returns False, perform_all toLowerCase h armor calls d1)"
    by (simp add: createRoom_result)
  with stored later show
    "(\<exists>row. rooms_table d1 (toLowerCase roomname) = Some row \<and>
        r_publicKey row = pk \<and> r_privateKey row = sk) \<and>
     (\<exists>row. rooms_table (perform_all toLowerCase h armor calls d1) (toLowerCase roomname) = Some row \<and>
        r_publicKey row = pk \<and> r_privateKey row = sk) \<and>
     createRoom toLowerCase existsFault' generated' insertFault' roomname' desc' (perform_all toLowerCase h armor calls d1)
       = (Returns False, perform_all toLowerCase h armor calls d1)"
    by simp
qed

theorem createRoom_keys_fixed_witness:
  "createRoom ascii_toLowerCase False (Some ([7, 8], [9])) False ''Lobby'' None example_db
     = (Returns True, snd (createRoom ascii_toLowerCase False (Some ([7, 8], [9])) False ''Lobby'' None example_db)) \<and>
   ascii_toLowerCase ''LOBBY'' = ascii_toLowerCase ''Lobby'' \<and>
   (\<exists>row. rooms_table
      (perform_all ascii_toLowerCase example_hash example_armor example_calls
         (snd (createRoom ascii_toLowerCase False (Some ([7, 8], [9])) False ''Lobby'' None example_db)))
      (ascii_toLowerCase ''Lobby'') = Some row \<and> r_publicKey row = [7, 8] \<and> r_privateKey row = [9]) \<and>
   createRoom ascii_toLowerCase False (Some ([0], [0])) False ''LOBBY'' None
      (perform_all ascii_toLowerCase example_hash example_armor example_calls
         (snd (createRoom ascii_toLowerCase False (Some ([7, 8], [9])) False ''Lobby'' None example_db)))
     = (Returns False,
        perform_all ascii_toLowerCase example_hash example_armor example_calls
         (snd (createRoom ascii_toLowerCase False (Some ([7, 8], [9])) False ''Lobby'' None example_db)))"
proof -
  have created:
    "createRoom ascii_toLowerCase False (Some ([7, 8], [9])) False ''Lobby'' None example_db
       = (Returns True, snd (createRoom ascii_toLowerCase False (Some ([7, 8], [9])) False ''Lobby'' None example_db))"
    by (simp add: createRoom_result lower_Lobby example_db_def)
  have same: "ascii_toLowerCase ''LOBBY'' = ascii_toLowerCase ''Lobby''"
    by (simp add: lower_Lobby lower_LOBBY)
  from created same
    createRoom_keys_fixed [of ascii_toLowerCase False "[7, 8]" "[9]" False "''Lobby''" None example_db
      "snd (createRoom ascii_toLowerCase False (Some ([7, 8], [9])) False ''Lobby'' None example_db)" "''LOBBY''"
      example_hash example_armor example_calls False "Some ([0], [0])" False None]
  show ?thesis by blast
qed

text \<open>
  C5. A second \<open>addUserToRoom\<close> with the same arguments, whatever faults it meets, leaves
  the database as the first call left it, when the first call met no fault and when it
  returned \<open>true\<close>; likewise a second \<open>removeUserFromRoom\<close>. For an existing user and an
  existing room whose key can be read, each of the calls returns \<open>true\<close>. Nothing is
  assumed about the edge: a leave without the edge is covered.
\<close>

theorem membership_idempotent:
  "snd (addUserToRoom toLowerCase armor uf rf tf uname roomname
          (snd (addUserToRoom toLowerCase armor False False NoFault uname roomname d)))
     = snd (addUserToRoom toLowerCase armor False False NoFault uname roomname d) \<and>
   snd (removeUserFromRoom toLowerCase armor uf rf tf uname roomname
          (snd (removeUserFromRoom toLowerCase armor False False NoFault uname roomname d)))
     = snd (removeUserFromRoom toLowerCase armor False False NoFault uname roomname d) \<and>
   (fst (addUserToRoom toLowerCase armor uf1 rf1 tf1 uname roomname d) \<longrightarrow>
      snd (addUserToRoom toLowerCase armor uf rf tf uname roomname
             (snd (addUserToRoom toLowerCase armor uf1 rf1 tf1 uname roomname d)))
        = snd (addUserToRoom toLowerCase armor uf1 rf1 tf1 uname roomname d)) \<and>
   (fst (removeUserFromRoom toLowerCase armor uf1 rf1 tf1 uname roomname d) \<longrightarrow>
      snd (removeUserFromRoom toLowerCase armor uf rf tf uname roomname
             (snd (removeUserFromRoom toLowerCase armor uf1 rf1 tf1 uname roomname d)))
        = snd (removeUserFromRoom toLowerCase armor uf1 rf1 tf1 uname roomname d)) \<and>
   (\<forall>urow rrow armored.
      users_table d uname = Some urow \<and> rooms_table d (toLowerCase roomname) = Some rrow \<and>
      armor (r_publicKey rrow) = Some armored \<longrightarrow>
        fst (addUserToRoom toLowerCase armor False False NoFault uname roomname d) \<and>
        fst (addUserToRoom toLowerCase armor False False NoFault uname roomname
               (snd (addUserToRoom toLowerCase armor False False NoFault uname roomname d))) \<and>
        fst (removeUserFromRoom toLowerCase armor False False NoFault uname roomname d) \<and>
        fst (removeUserFromRoom toLowerCase armor False False NoFault uname roomname
               (snd (removeUserFromRoom toLowerCase armor False False NoFault uname roomname d))))"
proof -
  have again: "fst (addUserToRoom toLowerCase armor False False NoFault uname roomname
               (snd (addUserToRoom toLowerCase armor False False NoFault uname roomname d))) \<and>
        fst (removeUserFromRoom toLowerCase armor False False NoFault uname roomname
               (snd (removeUserFromRoom toLowerCase armor False False NoFault uname roomname d)))"
    if "users_table d uname = Some urow" and "rooms_table d (toLowerCase roomname) = Some rrow"
      and "armor (r_publicKey rrow) = Some armored" for urow rrow armored
    using that
    by (auto simp: addUserToRoom_result removeUserFromRoom_result getUserSession_def getRoom_def
      users_update_users rooms_update_users rooms_update_rooms users_update_rooms
      split: option.splits if_splits)
  show ?thesis
  proof (intro conjI allI impI)
    show "snd (addUserToRoom toLowerCase armor uf rf tf uname roomname
          (snd (addUserToRoom toLowerCase armor False False NoFault uname roomname d)))
       = snd (addUserToRoom toLowerCase armor False False NoFault uname roomname d)"
      by (rule addUserToRoom_twice)
    show "snd (removeUserFromRoom toLowerCase armor uf rf tf uname roomname
          (snd (removeUserFromRoom toLowerCase armor False False NoFault uname roomname d)))
       = snd (removeUserFromRoom toLowerCase armor False False NoFault uname roomname d)"
      by (rule removeUserFromRoom_twice)
    show "snd (addUserToRoom toLowerCase armor uf rf tf uname roomname
             (snd (addUserToRoom toLowerCase armor uf1 rf1 tf1 uname roomname d)))
        = snd (addUserToRoom toLowerCase armor uf1 rf1 tf1 uname roomname d)"
      if "fst (addUserToRoom toLowerCase armor uf1 rf1 tf1 uname roomname d)"
      by (rule addUserToRoom_again [of toLowerCase armor uf1 rf1 tf1 uname roomname d]) (use that in \<open>simp add: prod_eq_iff\<close>)
    show "snd (removeUserFromRoom toLowerCase armor uf rf tf uname roomname
             (snd (removeUserFromRoom toLowerCase armor uf1 rf1 tf1 uname roomname d)))
        = snd (removeUserFromRoom toLowerCase armor uf1 rf1 tf1 uname roomname d)"
      if "fst (removeUserFromRoom toLowerCase armor uf1 rf1 tf1 uname roomname d)"
      by (rule removeUserFromRoom_again [of toLowerCase armor uf1 rf1 tf1 uname roomname d]) (use that in \<open>simp add: prod_eq_iff\<close>)
  qed (auto simp: membership_call_succeeds dest: again)
qed

theorem membership_idempotent_witness:
  "snd (addUserToRoom ascii_toLowerCase example_armor False False NoFault ''alice'' ''general'' example_db) \<noteq> example_db \<and>
   snd (addUserToRoom ascii_toLowerCase example_armor False False NoFault ''alice'' ''general''
          (snd (addUserToRoom ascii_toLowerCase example_armor False False NoFault ''alice'' ''general'' example_db)))
     = snd (addUserToRoom ascii_toLowerCase example_armor False False NoFault ''alice'' ''general'' example_db) \<and>
   fst (addUserToRoom ascii_toLowerCase example_armor False False NoFault ''alice'' ''general''
          (snd (addUserToRoom ascii_toLowerCase example_armor False False NoFault ''alice'' ''general'' example_db))) \<and>
   removeUserFromRoom ascii_toLowerCase example_armor False False NoFault ''alice'' ''general'' example_db
     = (True, example_db) \<and>
   fst (removeUserFromRoom ascii_toLowerCase example_armor False False NoFault ''alice'' ''general''
          (snd (removeUserFromRoom ascii_toLowerCase example_armor False False NoFault ''alice'' ''general'' example_db)))"
proof -
  have present:
    "\<exists>urow rrow armored. users_table example_db ''alice'' = Some urow \<and>
       rooms_table example_db (ascii_toLowerCase ''general'') = Some rrow \<and>
       example_armor (r_publicKey rrow) = Some armored"
    by (simp add: example_db_def lower_general example_armor_def)
  note inst = membership_idempotent [of ascii_toLowerCase example_armor False False NoFault
      "''alice''" "''general''" example_db]
  have changed:
    "snd (addUserToRoom ascii_toLowerCase example_armor False False NoFault ''alice'' ''general'' example_db) \<noteq> example_db"
    by (simp add: example_join lower_general example_db_joined_neq)
  from inst present changed example_leave_absent show ?thesis by blast
qed

text \<open>
  C6. For a user name without a row, \<open>createUserProfile\<close> without faults returns \<open>true\<close>.
  After a call that returned \<open>true\<close> the row holds the hash of the password, an empty
  \<open>rooms\<close> array and \<open>online = 0\<close>, which \<open>getUserSession\<close> reads as an empty set and
  \<open>false\<close>; a second call for the name returns \<open>false\<close> (\<open>null\<close> when its read faults) and
  leaves the database, so the stored hash, as it was.
\<close>

theorem createUserProfile_no_duplicate:
  "(users_table d uname = None \<longrightarrow>
      fst (createUserProfile h False salt False uname pw col d) = Some True) \<and>
   (createUserProfile h readFault salt insertFault uname pw col d = (Some True, d1) \<longrightarrow>
      users_table d1 uname =
        Some \<lparr>u_displayName = None, u_password = h pw 10 salt, u_color = col, u_rooms = [],
              u_online = 0, u_publicKey = None\<rparr> \<and>
      (\<exists>s. getUserSession False uname d1 = Some s \<and> rooms s = [] \<and> \<not> online s \<and>
           password s = h pw 10 salt) \<and>
      createUserProfile h False salt' insertFault' uname pw' col' d1 = (Some False, d1) \<and>
      createUserProfile h True salt' insertFault' uname pw' col' d1 = (None, d1))"
proof (intro conjI impI)
  show "fst (createUserProfile h False salt False uname pw col d) = Some True"
    if "users_table d uname = None"
    using that by (simp add: createUserProfile_def)
next
  assume "createUserProfile h readFault salt insertFault uname pw col d = (Some True, d1)"
  then have row: "users_table d1 uname =
      Some \<lparr>u_displayName = None, u_password = h pw 10 salt, u_color = col, u_rooms = [],
            u_online = 0, u_publicKey = None\<rparr>"
    by (auto simp: createUserProfile_def split: if_splits option.splits)
  then show "users_table d1 uname =
      Some \<lparr>u_displayName = None, u_password = h pw 10 salt, u_color = col, u_rooms = [],
            u_online = 0, u_publicKey = None\<rparr>" .
  from row show "\<exists>s. getUserSession False uname d1 = Some s \<and> rooms s = [] \<and> \<not> online s \<and>
      password s = h pw 10 salt"
    by (simp add: getUserSession_def new_Set_def)
  from row show "createUserProfile h False salt' insertFault' uname pw' col' d1 = (Some False, d1)"
    by (simp add: createUserProfile_def)
  show "createUserProfile h True salt' insertFault' uname pw' col' d1 = (None, d1)"
    by (simp add: createUserProfile_def)
qed

theorem createUserProfile_no_duplicate_witness:
  "users_table example_db ''carol'' = None \<and>
   fst (createUserProfile example_hash False ''ab'' False ''carol'' ''first'' ''red'' example_db)
     = Some True \<and>
   fst (createUserProfile example_hash False ''cd'' False ''carol'' ''second'' ''blue''
          (snd (createUserProfile example_hash False ''ab'' False ''carol'' ''first'' ''red'' example_db)))
     = Some False \<and>
   map_option u_password
     (users_table
        (snd (createUserProfile example_hash False ''cd'' False ''carol'' ''second'' ''blue''
          (snd (createUserProfile example_hash False ''ab'' False ''carol'' ''first'' ''red'' example_db))))
        ''carol'')
     = Some ''ab$first''"
proof -
  have absent: "users_table example_db ''carol'' = None"
    by (simp add: example_db_def)
  note first = createUserProfile_no_duplicate [of example_db "''carol''" example_hash "''ab''"
      "''first''" "''red''" False False
      "snd (createUserProfile example_hash False ''ab'' False ''carol'' ''first'' ''red'' example_db)"
      "''cd''" False "''second''" "''blue''"]
  from first absent have created:
    "createUserProfile example_hash False ''ab'' False ''carol'' ''first'' ''red'' example_db
      = (Some True, snd (createUserProfile example_hash False ''ab'' False ''carol'' ''first'' ''red'' example_db))"
    by (simp add: prod_eq_iff)
  from first absent created show ?thesis
    by (simp add: example_hash_def)
qed

text \<open>
  C7. \<open>existsRoom\<close> answers \<open>true\<close> whenever its read faults. Without a fault it answers
  \<open>true\<close> exactly when the table has a row under the lower-cased name; when the stored
  names are in lower case, as \<open>createRoom\<close> stores them, that is exactly when some stored
  name equals the given one up to case, and where \<open>toLowerCase\<close> leaves its own results as
  they are, every database that a run of calls builds from the empty tables is such a
  database. Every other exported function answers \<open>null\<close> or \<open>false\<close> when its own query
  faults (\<open>createRoom\<close> does when its insert faults), with one exception, so that
  \<open>existsRoom\<close> is not the only function with a result of the successful kind after a
  fault: \<open>getUserViews\<close> of a user that can be read returns a set whatever reads of rooms
  fault.
\<close>

theorem existsRoom_fail_closed:
  "existsRoom toLowerCase True roomname d \<and>
   (existsRoom toLowerCase False roomname d
      \<longleftrightarrow> rooms_table d (toLowerCase roomname) \<noteq> None) \<and>
   (rooms_lowercase toLowerCase d \<longrightarrow>
      (existsRoom toLowerCase False roomname d \<longleftrightarrow>
         (\<exists>k. rooms_table d k \<noteq> None \<and> toLowerCase k = toLowerCase roomname))) \<and>
   ((\<forall>s. toLowerCase (toLowerCase s) = toLowerCase s) \<longrightarrow>
      (existsRoom toLowerCase False roomname (perform_all toLowerCase h armor calls empty_db) \<longleftrightarrow>
         (\<exists>k. rooms_table (perform_all toLowerCase h armor calls empty_db) k \<noteq> None \<and>
              toLowerCase k = toLowerCase roomname))) \<and>
   getUserSession True uname d = None \<and>
   createUserProfile h True salt insertFault uname pw col d = (None, d) \<and>
   createUserProfile h False salt True uname pw col d \<noteq> (Some True, d') \<and>
   \<not> compareUserProfile cmp True uname pw d \<and>
   updateUserProfile True uname col d = (False, d) \<and>
   setUserStatus True uname on d = (False, d) \<and>
   setUserPublicKey True uname pk d = (False, d) \<and>
   getUserPublicKey True uname d = None \<and>
   getRoom toLowerCase armor True roomname d = None \<and>
   fst (createRoom toLowerCase False generated True roomname desc d) \<noteq> Returns True \<and>
   addUserToRoom toLowerCase armor True roomFault trxFault uname roomname d = (False, d) \<and>
   addUserToRoom toLowerCase armor userFault True trxFault uname roomname d = (False, d) \<and>
   \<not> fst (addUserToRoom toLowerCase armor userFault roomFault CommitFails uname roomname d) \<and>
   removeUserFromRoom toLowerCase armor True roomFault trxFault uname roomname d = (False, d) \<and>
   removeUserFromRoom toLowerCase armor userFault True trxFault uname roomname d = (False, d) \<and>
   \<not> fst (removeUserFromRoom toLowerCase armor userFault roomFault CommitFails uname roomname d) \<and>
   getUserViews toLowerCase armor True roomFaults uname d = None \<and>
   (getUserSession False uname d \<noteq> None \<longrightarrow>
      getUserViews toLowerCase armor False roomFaults uname d \<noteq> None)"
proof -
  have a: "existsRoom toLowerCase True roomname d"
    by (simp add: existsRoom_def)
  have b: "existsRoom toLowerCase False roomname d
      \<longleftrightarrow> rooms_table d (toLowerCase roomname) \<noteq> None" for d
    by (simp add: existsRoom_def split: option.splits)
  have c: "(\<exists>k. rooms_table d k \<noteq> None \<and> toLowerCase k = toLowerCase roomname)
             \<longleftrightarrow> rooms_table d (toLowerCase roomname) \<noteq> None"
    if inv: "rooms_lowercase toLowerCase d" for d
  proof
    assume "\<exists>k. rooms_table d k \<noteq> None \<and> toLowerCase k = toLowerCase roomname"
    then obtain k where k: "rooms_table d k \<noteq> None" "toLowerCase k = toLowerCase roomname"
      by blast
    with inv have "k = toLowerCase roomname"
      by (simp add: rooms_lowercase_def)
    with k show "rooms_table d (toLowerCase roomname) \<noteq> None" by simp
  next
    assume present: "rooms_table d (toLowerCase roomname) \<noteq> None"
    with inv have "toLowerCase (toLowerCase roomname) = toLowerCase roomname"
      by (simp add: rooms_lowercase_def)
    with present show "\<exists>k. rooms_table d k \<noteq> None \<and> toLowerCase k = toLowerCase roomname"
      by blast
  qed
  have others:
    "getUserSession True uname d = None \<and>
     createUserProfile h True salt insertFault uname pw col d = (None, d) \<and>
     createUserProfile h False salt True uname pw col d \<noteq> (Some True, d') \<and>
     \<not> compareUserProfile cmp True uname pw d \<and>
     updateUserProfile True uname col d = (False, d) \<and>
     setUserStatus True uname on d = (False, d) \<and>
     setUserPublicKey True uname pk d = (False, d) \<and>
     getUserPublicKey True uname d = None \<and>
     getRoom toLowerCase armor True roomname d = None \<and>
     fst (createRoom toLowerCase False generated True roomname desc d) \<noteq> Returns True \<and>
     addUserToRoom toLowerCase armor True roomFault trxFault uname roomname d = (False, d) \<and>
     addUserToRoom toLowerCase armor userFault True trxFault uname roomname d = (False, d) \<and>
     removeUserFromRoom toLowerCase armor True roomFault trxFault uname roomname d = (False, d) \<and>
     removeUserFromRoom toLowerCase armor userFault True trxFault uname roomname d = (False, d) \<and>
     getUserViews toLowerCase armor True roomFaults uname d = None"
    by (simp add: getUserSession_def createUserProfile_def compareUserProfile_def
        updateUserProfile_def setUserStatus_def setUserPublicKey_def getUserPublicKey_def
        getRoom_def createRoom_def addUserToRoom_def removeUserFromRoom_def getUserViews_def
        split: option.splits prod.splits)
  have commit:
    "\<not> fst (addUserToRoom toLowerCase armor userFault roomFault CommitFails uname roomname d)"
    "\<not> fst (removeUserFromRoom toLowerCase armor userFault roomFault CommitFails uname roomname d)"
    by (simp_all add: addUserToRoom_result removeUserFromRoom_result split: option.splits)
  have views: "getUserViews toLowerCase armor False roomFaults uname d \<noteq> None"
    if "getUserSession False uname d \<noteq> None"
    using that by (auto simp: getUserViews_def)
  have reached: "rooms_lowercase toLowerCase (perform_all toLowerCase h armor calls empty_db)"
    if "\<forall>s. toLowerCase (toLowerCase s) = toLowerCase s"
    using that by (simp add: perform_all_keeps_lowercase empty_lowercase)
  show ?thesis
    using a b [of d] c [of d] others commit views
      b [of "perform_all toLowerCase h armor calls empty_db"] c [OF reached]
    by simp
qed

theorem existsRoom_fail_closed_witness:
  "rooms_lowercase ascii_toLowerCase example_db \<and>
   existsRoom ascii_toLowerCase True ''GENERAL'' example_db \<and>
   existsRoom ascii_toLowerCase False ''GENERAL'' example_db \<and>
   (\<exists>k. rooms_table example_db k \<noteq> None \<and> ascii_toLowerCase k = ascii_toLowerCase ''GENERAL'') \<and>
   (\<forall>s. ascii_toLowerCase (ascii_toLowerCase s) = ascii_toLowerCase s) \<and>
   existsRoom ascii_toLowerCase False ''GENERAL''
     (perform_all ascii_toLowerCase example_hash example_armor example_created empty_db) \<and>
   (\<exists>k. rooms_table
          (perform_all ascii_toLowerCase example_hash example_armor example_created empty_db) k
          \<noteq> None \<and>
        ascii_toLowerCase k = ascii_toLowerCase ''GENERAL'') \<and>
   getUserSession False ''alice'' example_db \<noteq> None \<and>
   getUserViews ascii_toLowerCase example_armor False fault_on_y ''alice'' example_db \<noteq> None"
proof -
  note inst = existsRoom_fail_closed [where toLowerCase = ascii_toLowerCase
      and roomname = "''GENERAL''" and d = example_db and h = example_hash
      and armor = example_armor and calls = example_created and uname = "''alice''"
      and roomFaults = fault_on_y]
  have found: "existsRoom ascii_toLowerCase False ''GENERAL'' example_db"
    by (simp add: existsRoom_def example_db_def lower_GENERAL)
  have created: "existsRoom ascii_toLowerCase False ''GENERAL''
     (perform_all ascii_toLowerCase example_hash example_armor example_created empty_db)"
    by (simp add: existsRoom_def perform_all_def example_created_def createRoom_result empty_db_def
        lower_GENERAL lower_General)
  have alice: "getUserSession False ''alice'' example_db \<noteq> None"
    by (simp add: getUserSession_def example_db_def)
  from inst example_db_lowercase found created alice ascii_toLowerCase_idem
  show ?thesis by blast
qed

text \<open>
  C7, the other function with a result of the successful kind after a fault:
  \<open>getUserViews\<close> for user \<open>A\<close>, with the read of room \<open>y\<close> failing, returns the members of
  room \<open>x\<close>.
\<close>

theorem getUserViews_after_room_fault:
  "fault_on_y ''y'' \<and>
   getUserViews ascii_toLowerCase example_armor False fault_on_y ''A'' observers_db
     = Some [''A'', ''B'']"
proof -
  have y: "getRoom ascii_toLowerCase example_armor (fault_on_y ''y'') ''y'' observers_db = None"
    by (simp add: fault_on_y_def getRoom_def)
  have x: "getRoom ascii_toLowerCase example_armor (fault_on_y ''x'') ''x'' observers_db
      = getRoom ascii_toLowerCase example_armor False ''x'' observers_db"
    by (simp add: fault_on_y_def)
  have "getUserViews ascii_toLowerCase example_armor False fault_on_y ''A'' observers_db
      = Some [''A'', ''B'']"
    by (simp add: getUserViews_def observers_A x y observers_x Set_add_def)
  then show ?thesis by (simp add: fault_on_y_def)
qed

text \<open>
  C8. \<open>getUserViews\<close> returns \<open>null\<close> exactly when \<open>getUserSession\<close> finds no user, which
  without a fault is exactly when the user has no row. Otherwise it returns a set whose
  elements are the members of the rooms of the user's \<open>rooms\<close> set that \<open>getRoom\<close> loads;
  a room that does not load adds nothing. The instance is user \<open>A\<close> in rooms \<open>x\<close> (members
  \<open>A\<close>, \<open>B\<close>) and \<open>y\<close> (members \<open>A\<close>, \<open>C\<close>), with and without a fault on room \<open>y\<close>.
\<close>

theorem getUserViews_union:
  "(getUserViews toLowerCase armor userFault roomFault uname d = None
      \<longleftrightarrow> getUserSession userFault uname d = None) \<and>
   (\<not> userFault \<longrightarrow>
      (getUserViews toLowerCase armor userFault roomFault uname d = None \<longleftrightarrow> users_table d uname = None)) \<and>
   (\<forall>user. getUserSession userFault uname d = Some user \<longrightarrow>
      (\<exists>viewers. getUserViews toLowerCase armor userFault roomFault uname d = Some viewers \<and>
         distinct viewers \<and>
         set viewers = (\<Union>r\<in>set (rooms user). loaded_members toLowerCase armor roomFault d r)))"
  by (auto simp: getUserViews_def getUserSession_def set_collectViewers distinct_collectViewers
      split: option.splits)

theorem getUserViews_union_witness:
  "(\<exists>viewers. getUserViews ascii_toLowerCase example_armor False (\<lambda>r. False) ''A'' observers_db = Some viewers \<and>
      set viewers = {''A'', ''B'', ''C''}) \<and>
   (\<exists>viewers. getUserViews ascii_toLowerCase example_armor False (\<lambda>r. r = ''y'') ''A'' observers_db = Some viewers \<and>
      set viewers = {''A'', ''B''}) \<and>
   getUserViews ascii_toLowerCase example_armor False (\<lambda>r. False) ''D'' observers_db = None"
proof -
  have x: "loaded_members ascii_toLowerCase example_armor (\<lambda>r. False) observers_db ''x'' = {''A'', ''B''}"
    by (simp add: loaded_members_def observers_x)
  have x': "loaded_members ascii_toLowerCase example_armor (\<lambda>r. r = ''y'') observers_db ''x'' = {''A'', ''B''}"
    by (simp add: loaded_members_def observers_x)
  have y: "loaded_members ascii_toLowerCase example_armor (\<lambda>r. False) observers_db ''y'' = {''A'', ''C''}"
    by (simp add: loaded_members_def observers_y)
  have y': "loaded_members ascii_toLowerCase example_armor (\<lambda>r. r = ''y'') observers_db ''y'' = {}"
    by (simp add: loaded_members_def getRoom_def)
  have absent: "users_table observers_db ''D'' = None"
    by (simp add: observers_db_def)
  have union: "{''A'', ''C'', ''A'', ''B''} = {''A'', ''B'', ''C''}"
    by blast
  from getUserViews_union [of ascii_toLowerCase example_armor False "\<lambda>r. False" "''A''" observers_db]
  have all: "\<exists>viewers. getUserViews ascii_toLowerCase example_armor False (\<lambda>r. False) ''A'' observers_db = Some viewers \<and>
      set viewers = {''A'', ''B'', ''C''}"
    by (simp add: observers_A x y union) blast
  from getUserViews_union [of ascii_toLowerCase example_armor False "\<lambda>r. r = ''y''" "''A''" observers_db]
  have partial: "\<exists>viewers. getUserViews ascii_toLowerCase example_armor False (\<lambda>r. r = ''y'') ''A'' observers_db = Some viewers \<and>
      set viewers = {''A'', ''B''}"
    by (simp add: observers_A x' y') blast
  from absent getUserViews_union [of ascii_toLowerCase example_armor False "\<lambda>r. False" "''D''" observers_db]
  have none: "getUserViews ascii_toLowerCase example_armor False (\<lambda>r. False) ''D'' observers_db = None"
    by simp
  from all partial none show ?thesis by simp
qed

text \<open>
  C9. \<open>compareUserProfile\<close> returns \<open>false\<close> for a user without a row. After
  \<open>createUserProfile\<close> has returned \<open>true\<close> for the user, and after any run of calls, it
  returns what \<open>bcrypt.compare\<close> says of the supplied password and the hash of the
  password given at creation, and \<open>false\<close> when its read faults.
\<close>

theorem compareUserProfile_verifies:
  "(users_table d uname = None \<longrightarrow> \<not> compareUserProfile cmp fault uname pw' d) \<and>
   (createUserProfile h readFault salt insertFault uname pw col d = (Some True, d1) \<longrightarrow>
      compareUserProfile cmp fault uname pw' (perform_all toLowerCase h armor calls d1)
        = (\<not> fault \<and> cmp pw' (h pw 10 salt)))"
proof (intro conjI impI)
  show "\<not> compareUserProfile cmp fault uname pw' d" if "users_table d uname = None"
    using that by (simp add: compareUserProfile_def)
  assume "createUserProfile h readFault salt insertFault uname pw col d = (Some True, d1)"
  then have "\<exists>row. users_table d1 uname = Some row \<and> u_password row = h pw 10 salt"
    by (auto simp: createUserProfile_def split: if_splits option.splits)
  then obtain row where row: "users_table d1 uname = Some row" "u_password row = h pw 10 salt"
    by blast
  from perform_all_keeps_password [OF row(1), of toLowerCase h armor calls] row(2)
  show "compareUserProfile cmp fault uname pw' (perform_all toLowerCase h armor calls d1)
      = (\<not> fault \<and> cmp pw' (h pw 10 salt))"
    by (auto simp: compareUserProfile_def)
qed

theorem compareUserProfile_verifies_witness:
  "users_table example_db ''ghost'' = None \<and>
   \<not> compareUserProfile example_compare False ''ghost'' ''anything'' example_db \<and>
   createUserProfile example_hash False ''ab'' False ''carol'' ''correct'' ''red'' example_db
     = (Some True, snd (createUserProfile example_hash False ''ab'' False ''carol'' ''correct'' ''red'' example_db)) \<and>
   compareUserProfile example_compare False ''carol'' ''correct''
     (perform_all ascii_toLowerCase example_hash example_armor example_calls
        (snd (createUserProfile example_hash False ''ab'' False ''carol'' ''correct'' ''red'' example_db))) \<and>
   \<not> compareUserProfile example_compare False ''carol'' ''wrong''
     (perform_all ascii_toLowerCase example_hash example_armor example_calls
        (snd (createUserProfile example_hash False ''ab'' False ''carol'' ''correct'' ''red'' example_db)))"
proof -
  have ghost: "users_table example_db ''ghost'' = None"
    by (simp add: example_db_def)
  have created:
    "createUserProfile example_hash False ''ab'' False ''carol'' ''correct'' ''red'' example_db
       = (Some True, snd (createUserProfile example_hash False ''ab'' False ''carol'' ''correct'' ''red'' example_db))"
    by (simp add: createUserProfile_def example_db_def)
  have right: "example_compare ''correct'' (example_hash ''correct'' 10 ''ab'')"
    by (simp add: example_compare_def example_hash_def)
  have wrong: "\<not> example_compare ''wrong'' (example_hash ''correct'' 10 ''ab'')"
    by (simp add: example_compare_def example_hash_def)
  from ghost created right wrong
    compareUserProfile_verifies [of example_db "''ghost''" example_compare False "''anything''"]
    compareUserProfile_verifies [of example_db "''carol''" example_compare False "''correct''"
      example_hash False "''ab''" False "''correct''" "''red''"
      "snd (createUserProfile example_hash False ''ab'' False ''carol'' ''correct'' ''red'' example_db)"
      ascii_toLowerCase example_armor example_calls]
    compareUserProfile_verifies [of example_db "''carol''" example_compare False "''wrong''"
      example_hash False "''ab''" False "''correct''" "''red''"
      "snd (createUserProfile example_hash False ''ab'' False ''carol'' ''correct'' ''red'' example_db)"
      ascii_toLowerCase example_armor example_calls]
  show ?thesis by simp
qed

text \<open>
  C10. Every record \<open>getUserSession\<close> returns has \<open>offline\<close> the negation of \<open>online\<close>, and
  for an existing user, read without a fault, it returns such a record, whose \<open>online\<close>
  says whether the stored flag is not zero.
\<close>

theorem getUserSession_offline:
  "(\<forall>s. getUserSession fault uname d = Some s \<longrightarrow> offline s = (\<not> online s)) \<and>
   (\<forall>row. \<not> fault \<and> users_table d uname = Some row \<longrightarrow>
      (\<exists>s. getUserSession fault uname d = Some s \<and> online s = (u_online row \<noteq> 0) \<and>
           offline s = (\<not> online s)))"
  by (auto simp: getUserSession_def split: option.splits)

theorem getUserSession_offline_witness:
  "\<exists>s. getUserSession False ''alice'' example_db = Some s \<and> online s \<and> \<not> offline s"
proof -
  have row: "\<exists>row. users_table example_db ''alice'' = Some row \<and> u_online row = 1"
    by (simp add: example_db_def)
  with getUserSession_offline [of False "''alice''" example_db] show ?thesis
    by fastforce
qed

end
